theory Spec2Isabelle
  imports Main "HOL-Library.AList"
begin

section \<open>Strings and values of the JavaScript runtime\<close>

text \<open>
  A JavaScript string is modelled as a HOL string, a sequence of code units below 256.
  Among those, the white space of \<open>String.prototype.trim\<close> and of the regular
  expression class \<open>\s\<close> is TAB, LF, VT, FF, CR, SPACE and NBSP.
\<close>

definition isWhiteSpace :: "char \<Rightarrow> bool" where
  "isWhiteSpace ch =
     (ch \<in> set [CHR 0x09, CHR 0x0A, CHR 0x0B, CHR 0x0C, CHR 0x0D, CHR 0x20, CHR 0xA0])"

definition trim :: "string \<Rightarrow> string" where
  "trim s = rev (dropWhile isWhiteSpace (rev (dropWhile isWhiteSpace s)))"

definition isDigit :: "char \<Rightarrow> bool" where
  "isDigit ch = (48 \<le> (of_char ch :: nat) \<and> (of_char ch :: nat) \<le> 57)"

definition digitValue :: "char \<Rightarrow> nat" where
  "digitValue ch = of_char ch - 48"

definition isAlnum :: "char \<Rightarrow> bool" where
  "isAlnum ch =
     (isDigit ch
      \<or> (65 \<le> (of_char ch :: nat) \<and> (of_char ch :: nat) \<le> 90)
      \<or> (97 \<le> (of_char ch :: nat) \<and> (of_char ch :: nat) \<le> 122))"

definition startsWith :: "string \<Rightarrow> string \<Rightarrow> bool" where
  "startsWith s p = (take (length p) s = p)"

definition endsWith :: "string \<Rightarrow> string \<Rightarrow> bool" where
  "endsWith s p = (length p \<le> length s \<and> drop (length s - length p) s = p)"

text \<open>\<open>needle\<close> occurs in \<open>s\<close> (\<open>String.prototype.includes\<close>).\<close>

fun includesText :: "string \<Rightarrow> string \<Rightarrow> bool" where
  "includesText [] needle = (needle = [])"
| "includesText (c # cs) needle = (startsWith (c # cs) needle \<or> includesText cs needle)"

text \<open>\<open>Array.prototype.join\<close> on strings.\<close>

fun joinWith :: "string \<Rightarrow> string list \<Rightarrow> string" where
  "joinWith sep [] = []"
| "joinWith sep [x] = x"
| "joinWith sep (x # y # ys) = x @ sep @ joinWith sep (y # ys)"

text \<open>\<open>String.prototype.split\<close> at a one-character separator.\<close>

fun splitAt :: "char \<Rightarrow> string \<Rightarrow> string \<Rightarrow> string list" where
  "splitAt sep [] piece = [piece]"
| "splitAt sep (c # cs) piece =
     (if c = sep then piece # splitAt sep cs [] else splitAt sep cs (piece @ [c]))"

definition splitOn :: "char \<Rightarrow> string \<Rightarrow> string list" where
  "splitOn sep s = splitAt sep s []"

text \<open>\<open>String(n)\<close> for an integer \<open>n\<close> that JavaScript prints in plain decimal.\<close>

definition digitChar :: "nat \<Rightarrow> char" where
  "digitChar d = ''0123456789'' ! d"

fun digitsOf :: "nat \<Rightarrow> string" where
  "digitsOf n = (if n < 10 then [digitChar n] else digitsOf (n div 10) @ [digitChar (n mod 10)])"

declare digitsOf.simps [simp del]

definition stringOfInt :: "int \<Rightarrow> string" where
  "stringOfInt i = (if i < 0 then CHR ''-'' # digitsOf (nat (- i)) else digitsOf (nat i))"

text \<open>
  \<open>normalizeValue\<close> of lib/config.js is \<open>String(value ?? "").trim()\<close>. On a string it
  is \<open>trim\<close>; \<open>orEmpty\<close> is the \<open>?? ""\<close> for a value that may be \<open>null\<close>, as
  \<open>searchParams.get\<close> returns it.
\<close>

definition normalizeValue :: "string \<Rightarrow> string" where
  "normalizeValue v = trim v"

definition orEmpty :: "string option \<Rightarrow> string" where
  "orEmpty v = (case v of None \<Rightarrow> [] | Some s \<Rightarrow> s)"

text \<open>
  The values \<open>JSON.parse\<close> returns. A number is represented by the two observations the
  program makes of it: whether it is falsy (zero), and the text \<open>String\<close> gives for it.
  An object is the list of its members in source order.
\<close>

datatype json =
    JNull
  | JBool bool
  | JNum (numIsZero: bool) (numText: string)
  | JStr string
  | JArr "json list"
  | JObj "(string \<times> json) list"

text \<open>The result record \<open>runCommand\<close> resolves to, and an \<open>Error\<close> with its optional \<open>result\<close>.\<close>

record cmd_result =
  command :: string
  stdout :: string
  stderr :: string
  code :: int
  signal :: "string option"
  ok :: bool

datatype js_error = Error (message: string) (errorResult: "cmd_result option")

text \<open>
  \<open>String(v)\<close>, \<open>None\<close> where it throws a TypeError. An array prints its elements joined
  by commas, \<open>null\<close> elements empty. An object prints as \<open>[object Object]\<close> through the
  \<open>toString\<close> it inherits; with a member of its own named \<open>toString\<close>, which is no
  function, no conversion is left and \<open>String\<close> throws.
\<close>

fun allSome :: "'a option list \<Rightarrow> 'a list option" where
  "allSome [] = Some []"
| "allSome (x # xs) =
     (case x of None \<Rightarrow> None
      | Some v \<Rightarrow> (case allSome xs of None \<Rightarrow> None | Some vs \<Rightarrow> Some (v # vs)))"

fun jsString :: "json \<Rightarrow> string option" where
  "jsString JNull = Some ''null''"
| "jsString (JBool b) = Some (if b then ''true'' else ''false'')"
| "jsString (JNum z t) = Some t"
| "jsString (JStr s) = Some s"
| "jsString (JArr xs) =
     map_option (joinWith '','')
       (allSome (map (\<lambda>x. if x = JNull then Some [] else jsString x) xs))"
| "jsString (JObj kvs) =
     (if ''toString'' \<in> set (map fst kvs) then None else Some ''[object Object]'')"

fun jsTruthy :: "json \<Rightarrow> bool" where
  "jsTruthy JNull = False"
| "jsTruthy (JBool b) = b"
| "jsTruthy (JNum z t) = (\<not> z)"
| "jsTruthy (JStr s) = (s \<noteq> [])"
| "jsTruthy (JArr xs) = True"
| "jsTruthy (JObj kvs) = True"

text \<open>
  A value or \<open>undefined\<close> (\<open>None\<close>). \<open>jsGet v key\<close> is the property read \<open>v.key\<close> for
  the member names the program uses: the last member of that name in an object (as
  \<open>JSON.parse\<close> keeps it), \<open>undefined\<close> on every other value.
\<close>

type_synonym jsval = "json option"

fun jsGet :: "json \<Rightarrow> string \<Rightarrow> jsval" where
  "jsGet (JObj kvs) key = map_of (rev kvs) key"
| "jsGet v key = None"

definition truthy :: "jsval \<Rightarrow> bool" where
  "truthy v = (case v of None \<Rightarrow> False | Some j \<Rightarrow> jsTruthy j)"

text \<open>\<open>a && a.key\<close> and \<open>a || b\<close>.\<close>

definition andGet :: "jsval \<Rightarrow> string \<Rightarrow> jsval" where
  "andGet v key = (case v of None \<Rightarrow> None | Some j \<Rightarrow> if jsTruthy j then jsGet j key else Some j)"

definition jsOr :: "jsval \<Rightarrow> jsval \<Rightarrow> jsval" where
  "jsOr a b = (if truthy a then a else b)"

text \<open>
  \<open>normalizeValue\<close> on a value that may be \<open>undefined\<close> or \<open>null\<close>; it throws where
  \<open>String\<close> does.
\<close>

definition typeError :: js_error where
  "typeError = Error ''Cannot convert object to primitive value'' None"

definition normalizeJs :: "jsval \<Rightarrow> js_error + string" where
  "normalizeJs v =
     (case v of
        None \<Rightarrow> Inr []
      | Some JNull \<Rightarrow> Inr []
      | Some j \<Rightarrow> (case jsString j of None \<Rightarrow> Inl typeError | Some t \<Rightarrow> Inr (trim t)))"

text \<open>
  \<open>Number.parseInt(text, 10)\<close>: leading white space, an optional sign, then the longest
  run of decimal digits; \<open>NaN\<close> without a digit. The number returned is the double nearest
  to the integer read, which is infinite from \<open>2^1024 - 2^970\<close> on; \<open>Finite\<close> holds the
  integer read, which the double equals up to \<open>2^53\<close>.
\<close>

datatype js_int = NaN | Infinite | Finite int

definition readDigits :: "string \<Rightarrow> nat" where
  "readDigits ds = foldl (\<lambda>acc ch. 10 * acc + digitValue ch) 0 ds"

definition toNumber :: "int \<Rightarrow> js_int" where
  "toNumber i = (if 2 ^ 1024 - 2 ^ 970 \<le> \<bar>i\<bar> then Infinite else Finite i)"

definition parseInt10 :: "string \<Rightarrow> js_int" where
  "parseInt10 s =
     (let t = dropWhile isWhiteSpace s;
          negative = (t \<noteq> [] \<and> hd t = CHR ''-'');
          u = (if t \<noteq> [] \<and> (hd t = CHR ''+'' \<or> hd t = CHR ''-'') then tl t else t);
          ds = takeWhile isDigit u
      in if ds = [] then NaN
         else toNumber (if negative then - int (readDigits ds) else int (readDigits ds)))"

definition isFiniteNumber :: "js_int \<Rightarrow> bool" where
  "isFiniteNumber n = (case n of Finite i \<Rightarrow> True | _ \<Rightarrow> False)"

text \<open>
  \<open>parsePositiveInt\<close> of lib/docker-client.js. Every call of the program passes bounds
  that are safe integers, where the comparisons on doubles are those on the integers.
\<close>

definition parsePositiveInt :: "string \<Rightarrow> int \<Rightarrow> int \<Rightarrow> int \<Rightarrow> int" where
  "parsePositiveInt v fallback minimum maximum =
     (let normalized = normalizeValue v;
          parsed = parseInt10 normalized
      in case parsed of
           Finite p \<Rightarrow> if p < minimum then minimum else if p > maximum then maximum else p
         | _ \<Rightarrow> fallback)"

section \<open>Command policy (docker-manager/lib/config.js, docker-manager/index.js)\<close>

text \<open>The catalog of lib/config.js, name by name.\<close>

definition SAFE_COMMAND_KEYS :: "string list" where
  "SAFE_COMMAND_KEYS =
    [''healthz'', ''help'', ''tailscale.status'', ''tailscale.ping'', ''tailscale.ip'',
     ''nginx.test'', ''nginx.version'', ''nginx.logs.access'', ''nginx.logs.error'',
     ''nginx.logs.shadow'', ''system.ps'', ''system.images'', ''system.networks'',
     ''system.volumes'', ''system.info'', ''system.version'', ''container.status'',
     ''container.logs'', ''container.inspect'', ''container.top'', ''container.stats'',
     ''container.start'', ''container.stop'', ''container.restart'', ''container.pause'',
     ''container.unpause'']"

definition DANGEROUS_COMMAND_KEYS :: "string list" where
  "DANGEROUS_COMMAND_KEYS =
    [''nginx.reload'', ''system.prune'', ''system.raw'', ''container.kill'', ''container.rm'',
     ''container.exec'', ''container.rename'', ''container.update'', ''container.raw'']"

datatype category = Safe | Dangerous

text \<open>
  The result of \<open>parseCommandPolicy\<close>: the flag \<open>allowAll\<close> and the explicit set. A
  \<open>Set\<close> of strings is the list of its elements in insertion order.
\<close>

record command_policy =
  allowAll :: bool
  allowSet :: "string list"

text \<open>The configuration object of \<open>createConfig\<close>, with the fields the program reads below.\<close>

record config =
  port :: nat
  dockerBin :: string
  requestBodyLimitBytes :: nat
  commandTimeoutMs :: nat
  maxLogLines :: int
  defaultLogTail :: int
  tailscaleSyncEnabled :: bool
  tailscaleContainer :: string
  nginxContainer :: string
  shadowDir :: string
  shadowPort :: nat
  enableSafeCommands :: bool
  enableDangerousCommands :: bool
  safeCommandsPolicy :: command_policy
  dangerousCommandsPolicy :: command_policy
  blockedCommands :: "string list"
  execShell :: string

definition COMMAND_SPECS :: "(string \<times> category) list" where
  "COMMAND_SPECS =
     map (\<lambda>key. (key, Safe)) SAFE_COMMAND_KEYS @
     map (\<lambda>key. (key, Dangerous)) DANGEROUS_COMMAND_KEYS"

text \<open>
  \<open>new Map(pairs)\<close> keeps the last pair of a repeated key, \<open>map_of\<close> the first one, hence
  the reversal.
\<close>

definition COMMAND_MAP :: "string \<Rightarrow> category option" where
  "COMMAND_MAP = map_of (rev COMMAND_SPECS)"

definition isCommandAllowed :: "config \<Rightarrow> string \<Rightarrow> bool" where
  "isCommandAllowed config commandKey =
     (case COMMAND_MAP commandKey of
        None \<Rightarrow> False
      | Some spec \<Rightarrow>
          if commandKey \<in> set (blockedCommands config) then False
          else (case spec of
                  Safe \<Rightarrow>
                    if \<not> enableSafeCommands config then False
                    else allowAll (safeCommandsPolicy config)
                         \<or> commandKey \<in> set (allowSet (safeCommandsPolicy config))
                | Dangerous \<Rightarrow>
                    if \<not> enableDangerousCommands config then False
                    else allowAll (dangerousCommandsPolicy config)
                         \<or> commandKey \<in> set (allowSet (dangerousCommandsPolicy config))))"

text \<open>The vocabulary of the policy invariant: catalog membership and the category of a name.\<close>

definition inCatalog :: "string \<Rightarrow> bool" where
  "inCatalog name = (name \<in> set SAFE_COMMAND_KEYS \<union> set DANGEROUS_COMMAND_KEYS)"

definition categoryOf :: "string \<Rightarrow> category" where
  "categoryOf name = (if name \<in> set SAFE_COMMAND_KEYS then Safe else Dangerous)"

definition categoryEnabled :: "config \<Rightarrow> category \<Rightarrow> bool" where
  "categoryEnabled config c =
     (case c of Safe \<Rightarrow> enableSafeCommands config | Dangerous \<Rightarrow> enableDangerousCommands config)"

definition categoryPolicy :: "config \<Rightarrow> category \<Rightarrow> command_policy" where
  "categoryPolicy config c =
     (case c of Safe \<Rightarrow> safeCommandsPolicy config | Dangerous \<Rightarrow> dangerousCommandsPolicy config)"

section \<open>Request parsing (docker-manager/index.js)\<close>

text \<open>
  \<open>urlObj.searchParams\<close> is the list of the query's name/value pairs in order;
  \<open>getAll\<close> gives every value of a name, \<open>get\<close> the first one or \<open>null\<close>.
\<close>

type_synonym search_params = "(string \<times> string) list"

definition getAll :: "search_params \<Rightarrow> string \<Rightarrow> string list" where
  "getAll params name = map snd (filter (\<lambda>kv. fst kv = name) params)"

definition getParam :: "search_params \<Rightarrow> string \<Rightarrow> string option" where
  "getParam params name = (case getAll params name of [] \<Rightarrow> None | v # _ \<Rightarrow> Some v)"

text \<open>The value \<open>parseRequestBody\<close> resolves to: the body text and its JSON, \<open>null\<close> if none.\<close>

record request_body =
  bodyText :: string
  bodyJson :: json

text \<open>
  The loop of \<open>parseShellWords\<close> over the remaining characters, with the word being
  built, the open quote (\<open>None\<close> for the empty string \<open>quote\<close>) and the words so far.
\<close>

fun shellWordsLoop :: "string \<Rightarrow> string \<Rightarrow> char option \<Rightarrow> string list \<Rightarrow> string list" where
  "shellWordsLoop [] current quote result =
     (if current \<noteq> [] then result @ [current] else result)"
| "shellWordsLoop (ch # rest) current (Some q) result =
     (if ch = q then shellWordsLoop rest current None result
      else (case rest of
              next # rest' \<Rightarrow>
                if ch = CHR 0x5C then shellWordsLoop rest' (current @ [next]) (Some q) result
                else shellWordsLoop rest (current @ [ch]) (Some q) result
            | [] \<Rightarrow> shellWordsLoop rest (current @ [ch]) (Some q) result))"
| "shellWordsLoop (ch # rest) current None result =
     (if ch = CHR 0x22 \<or> ch = CHR 0x27 then shellWordsLoop rest current (Some ch) result
      else if isWhiteSpace ch then
        (if current \<noteq> [] then shellWordsLoop rest [] None (result @ [current])
         else shellWordsLoop rest current None result)
      else (case rest of
              next # rest' \<Rightarrow>
                if ch = CHR 0x5C then shellWordsLoop rest' (current @ [next]) None result
                else shellWordsLoop rest (current @ [ch]) None result
            | [] \<Rightarrow> shellWordsLoop rest (current @ [ch]) None result))"

definition parseShellWords :: "string \<Rightarrow> string list" where
  "parseShellWords t =
     (let source = normalizeValue t
      in if source = [] then [] else shellWordsLoop source [] None [])"

text \<open>
  The loops of \<open>collectArgs\<close> that push a normalized, non-empty value: over strings, and
  over the items of the body array, where \<open>normalizeValue\<close> may throw.
\<close>

definition pushValue :: "string list \<Rightarrow> string \<Rightarrow> string list" where
  "pushValue args raw = (let v = normalizeValue raw in if v \<noteq> [] then args @ [v] else args)"

fun pushItems :: "string list \<Rightarrow> json list \<Rightarrow> js_error + string list" where
  "pushItems args [] = Inr args"
| "pushItems args (item # items) =
     (case normalizeJs (Some item) of
        Inl e \<Rightarrow> Inl e
      | Inr v \<Rightarrow> pushItems (if v \<noteq> [] then args @ [v] else args) items)"

text \<open>\<open>body.json.args\<close> when \<open>body.json\<close> is truthy and the member is an array.\<close>

definition bodyArgsArray :: "request_body \<Rightarrow> json list option" where
  "bodyArgsArray body =
     (if jsTruthy (bodyJson body)
      then (case jsGet (bodyJson body) ''args'' of Some (JArr items) \<Rightarrow> Some items | _ \<Rightarrow> None)
      else None)"

definition collectArgs :: "search_params \<Rightarrow> request_body \<Rightarrow> js_error + string list" where
  "collectArgs searchParams body =
     (let args0 = foldl pushValue [] (getAll searchParams ''arg'');
          argsCsv = normalizeValue (orEmpty (getParam searchParams ''args''));
          args1 =
            (if argsCsv \<noteq> [] then
               (if CHR '','' \<in> set argsCsv
                then foldl pushValue args0 (splitOn CHR '','' argsCsv)
                else args0 @ parseShellWords argsCsv)
             else args0)
      in case (case bodyArgsArray body of
                 Some items \<Rightarrow> pushItems args1 items
               | None \<Rightarrow> Inr args1) of
           Inl e \<Rightarrow> Inl e
         | Inr args2 \<Rightarrow>
             Inr (if args2 = [] \<and> bodyText body \<noteq> []
                  then args2 @ parseShellWords (bodyText body)
                  else args2))"

text \<open>
  The four sources of \<open>collectArgs\<close>, each read on its own: the repeated \<open>arg\<close> query
  parameters, the comma-or-shell-word-split \<open>args\<close> query parameter, the JSON body
  \<open>args\<close> array, and the shell-word-split raw body text.
\<close>

definition argSource :: "search_params \<Rightarrow> string list" where
  "argSource searchParams =
     filter (\<lambda>v. v \<noteq> []) (map normalizeValue (getAll searchParams ''arg''))"

definition argsSource :: "search_params \<Rightarrow> string list" where
  "argsSource searchParams =
     (let argsCsv = normalizeValue (orEmpty (getParam searchParams ''args''))
      in if CHR '','' \<in> set argsCsv
         then filter (\<lambda>v. v \<noteq> []) (map normalizeValue (splitOn CHR '','' argsCsv))
         else parseShellWords argsCsv)"

fun normalizeAll :: "json list \<Rightarrow> js_error + string list" where
  "normalizeAll [] = Inr []"
| "normalizeAll (item # items) =
     (case normalizeJs (Some item) of
        Inl e \<Rightarrow> Inl e
      | Inr v \<Rightarrow> (case normalizeAll items of Inl e \<Rightarrow> Inl e | Inr vs \<Rightarrow> Inr (v # vs)))"

definition jsonArgsSource :: "request_body \<Rightarrow> js_error + string list" where
  "jsonArgsSource body =
     (case bodyArgsArray body of
        None \<Rightarrow> Inr []
      | Some items \<Rightarrow>
          (case normalizeAll items of
             Inl e \<Rightarrow> Inl e
           | Inr vs \<Rightarrow> Inr (filter (\<lambda>v. v \<noteq> []) vs)))"

definition bodyTextSource :: "request_body \<Rightarrow> string list" where
  "bodyTextSource body = parseShellWords (bodyText body)"

text \<open>The claimed rule: the first non-empty source alone.\<close>

definition firstNonEmpty :: "string list list \<Rightarrow> string list" where
  "firstNonEmpty sources = (case filter (\<lambda>xs. xs \<noteq> []) sources of [] \<Rightarrow> [] | xs # _ \<Rightarrow> xs)"

section \<open>Process runner (docker-manager/lib/command-runner.js)\<close>

text \<open>
  What becomes of a spawned process: it closes with an exit code (\<open>null\<close> when a signal
  killed it), a signal, and the text of its two streams; or the \<open>error\<close> event fires; or
  it is still running at the deadline. Every call of the program sets a positive deadline
  (\<open>commandTimeoutMs\<close> is at least 500), so one of the three happens.
\<close>

datatype proc_outcome =
    Closed "int option" "string option" string string
  | SpawnFailed string
  | DeadlinePassed

text \<open>
  The environment of the program, over a type \<open>'w\<close> of states of the outside world:
  \<open>spawn\<close> runs a program with its argument vector and deadline, \<open>dateNow\<close> reads the
  clock in milliseconds. \<open>jsonParse\<close> is \<open>JSON.parse\<close> (\<open>Inl\<close> the message of its
  SyntaxError), \<open>localeCompare\<close> is the comparator
  \<open>left.localeCompare(right, undefined, {numeric: true, sensitivity: "base"})\<close>, whose
  order is the locale's, \<open>toISOString\<close> prints a clock reading as \<open>Date.prototype.toISOString\<close>, and
  \<open>jsonStringify\<close> is \<open>JSON.stringify(value, null, 2)\<close>.
\<close>

record 'w env =
  spawn :: "string \<Rightarrow> string list \<Rightarrow> nat \<Rightarrow> 'w \<Rightarrow> proc_outcome \<times> 'w"
  dateNow :: "'w \<Rightarrow> nat"
  jsonParse :: "string \<Rightarrow> string + json"
  localeCompare :: "string \<Rightarrow> string \<Rightarrow> int"
  toISOString :: "nat \<Rightarrow> string"
  jsonStringify :: "json \<Rightarrow> string"

text \<open>
  The mutable state: the outside world, the resolve cache of the client, and the entries
  of the shadow directory by name, each a regular file with its text or a directory.
  Two records are kept for the statements below: every \<open>spawn\<close> call made (program,
  argument vector and what became of the process), and every call of \<open>fs\<close> that writes,
  renames or removes. Logging is left out: the logger writes to its own file and to the
  console, and catches what its writes throw.
\<close>

datatype fs_entry = File string | Directory

datatype fs_call = WriteFile string string | Rename string string | Remove string

record cache_entry =
  cachedValue :: string
  expiresAt :: nat

record 'w state =
  world :: 'w
  containerResolveCache :: "string \<Rightarrow> cache_entry option"
  shadowFiles :: "(string \<times> fs_entry) list"
  fsCalls :: "fs_call list"
  spawned :: "(string \<times> string list \<times> proc_outcome) list"

text \<open>An asynchronous function: from a state to a rejection or a value, and the new state.\<close>

type_synonym ('w, 'a) async = "'w state \<Rightarrow> (js_error + 'a) \<times> 'w state"

text \<open>\<open>const x = await m; ...\<close>: a rejection of \<open>m\<close> ends the function.\<close>

definition andThen :: "('w, 'a) async \<Rightarrow> ('a \<Rightarrow> ('w, 'b) async) \<Rightarrow> ('w, 'b) async" where
  "andThen m f s = (case m s of (Inl e, s') \<Rightarrow> (Inl e, s') | (Inr x, s') \<Rightarrow> f x s')"

definition buildCommandText :: "string \<Rightarrow> string list \<Rightarrow> string" where
  "buildCommandText cmd args = trim (joinWith '' '' (cmd # args))"

definition runCommand :: "'w env \<Rightarrow> string \<Rightarrow> string list \<Rightarrow> nat \<Rightarrow> ('w, cmd_result) async" where
  "runCommand E cmd args timeoutMs s =
     (let (outcome, w) = spawn E cmd args timeoutMs (world s);
          s' = s\<lparr>world := w, spawned := spawned s @ [(cmd, args, outcome)]\<rparr>;
          commandText = buildCommandText cmd args
      in case outcome of
           Closed exitCode sig out err \<Rightarrow>
             (Inr \<lparr>command = commandText, stdout = out, stderr = err,
                   code = (case exitCode of Some c \<Rightarrow> c | None \<Rightarrow> 1),
                   signal = sig, ok = (exitCode = Some 0)\<rparr>, s')
         | SpawnFailed msg \<Rightarrow> (Inl (Error msg None), s')
         | DeadlinePassed \<Rightarrow>
             (Inl (Error (''command timeout after '' @ digitsOf timeoutMs @ ''ms: '' @ commandText)
                     None), s'))"

section \<open>Runtime client (docker-manager/lib/docker-client.js)\<close>

text \<open>The options of \<open>runDocker\<close>; a \<open>timeoutMs\<close> of 0 is an absent one.\<close>

record run_options =
  allowFailure :: bool
  timeoutMs :: nat

definition defaultOptions :: run_options where
  "defaultOptions = \<lparr>allowFailure = False, timeoutMs = 0\<rparr>"

definition failureDetail :: "cmd_result \<Rightarrow> string" where
  "failureDetail r =
     (if normalizeValue (stderr r) \<noteq> [] then normalizeValue (stderr r)
      else if normalizeValue (stdout r) \<noteq> [] then normalizeValue (stdout r)
      else ''exit '' @ stringOfInt (code r))"

definition runDocker :: "'w env \<Rightarrow> config \<Rightarrow> string list \<Rightarrow> run_options \<Rightarrow> ('w, cmd_result) async" where
  "runDocker E cfg args options =
     andThen
       (runCommand E (dockerBin cfg) args
          (if timeoutMs options \<noteq> 0 then timeoutMs options else commandTimeoutMs cfg))
       (\<lambda>r s. if \<not> allowFailure options \<and> code r \<noteq> 0
              then (Inl (Error (''docker command failed: '' @ failureDetail r) (Some r)), s)
              else (Inr r, s))"

text \<open>\<open>CONTAINER_NAME_PATTERN\<close> is \<open>^[A-Za-z0-9][A-Za-z0-9_.-]*$\<close>.\<close>

definition isNameChar :: "char \<Rightarrow> bool" where
  "isNameChar ch = (isAlnum ch \<or> ch = CHR ''_'' \<or> ch = CHR ''.'' \<or> ch = CHR ''-'')"

definition isContainerNameValid :: "string \<Rightarrow> bool" where
  "isContainerNameValid containerName =
     (case normalizeValue containerName of
        [] \<Rightarrow> False
      | ch # rest \<Rightarrow> isAlnum ch \<and> list_all isNameChar rest)"

text \<open>\<open>split(/\r?\n/g)\<close>, and \<open>readFirstLine\<close>.\<close>

fun splitLines :: "string \<Rightarrow> string \<Rightarrow> string list" where
  "splitLines [] piece = [piece]"
| "splitLines [c] piece = (if c = CHR 0x0A then [piece, []] else [piece @ [c]])"
| "splitLines (c # d # cs) piece =
     (if c = CHR 0x0D \<and> d = CHR 0x0A then piece # splitLines cs []
      else if c = CHR 0x0A then piece # splitLines (d # cs) []
      else splitLines (d # cs) (piece @ [c]))"

definition readFirstLine :: "string \<Rightarrow> string" where
  "readFirstLine t =
     (case filter (\<lambda>l. l \<noteq> []) (map trim (splitLines t [])) of
        [] \<Rightarrow> []
      | l # _ \<Rightarrow> l)"

definition containerResolveTtlMs :: nat where
  "containerResolveTtlMs = 10000"

text \<open>\<open>readResolveCache\<close> returns the cached value, or the empty string.\<close>

definition readResolveCache :: "'w env \<Rightarrow> string \<Rightarrow> 'w state \<Rightarrow> string \<times> 'w state" where
  "readResolveCache E containerName s =
     (let key = normalizeValue containerName
      in case containerResolveCache s key of
           None \<Rightarrow> ([], s)
         | Some cached \<Rightarrow>
             if expiresAt cached \<le> dateNow E (world s)
             then ([], s\<lparr>containerResolveCache := (containerResolveCache s)(key := None)\<rparr>)
             else (cachedValue cached, s))"

definition writeResolveCache :: "'w env \<Rightarrow> string \<Rightarrow> string \<Rightarrow> 'w state \<Rightarrow> 'w state" where
  "writeResolveCache E containerName resolvedName s =
     (let key = normalizeValue containerName;
          v = normalizeValue resolvedName
      in if key = [] \<or> v = [] then s
         else s\<lparr>containerResolveCache := (containerResolveCache s)
                  (key \<mapsto> \<lparr>cachedValue = v,
                             expiresAt = dateNow E (world s) + containerResolveTtlMs\<rparr>)\<rparr>)"

definition findContainerByComposeService :: "'w env \<Rightarrow> config \<Rightarrow> string \<Rightarrow> ('w, string) async" where
  "findContainerByComposeService E cfg serviceName =
     (let service = normalizeValue serviceName
      in if service = [] then (\<lambda>s. (Inr [], s))
         else
           (let args = [''--filter'', ''label=com.docker.compose.service='' @ service,
                        ''--format'', ''{{.Names}}'']
            in andThen
                 (runDocker E cfg (''ps'' # args) \<lparr>allowFailure = True, timeoutMs = 5000\<rparr>)
                 (\<lambda>running.
                    let runningName = readFirstLine (stdout running)
                    in if runningName \<noteq> [] then (\<lambda>s. (Inr runningName, s))
                       else andThen
                              (runDocker E cfg (''ps'' # ''-a'' # args)
                                 \<lparr>allowFailure = True, timeoutMs = 5000\<rparr>)
                              (\<lambda>anyState s. (Inr (readFirstLine (stdout anyState)), s)))))"

definition notFoundMessage :: "string \<Rightarrow> string" where
  "notFoundMessage directName =
     ''container not found: '' @ directName
     @ ''. Hint: set DOCKER_MANAGER_TAILSCALE_CONTAINER/DOCKER_MANAGER_NGINX_CONTAINER to actual container name if needed''"

definition resolveContainerTarget :: "'w env \<Rightarrow> config \<Rightarrow> string \<Rightarrow> ('w, string) async" where
  "resolveContainerTarget E cfg containerName s =
     (if \<not> isContainerNameValid containerName
      then (Inl (Error (''invalid container name: '' @ containerName) None), s)
      else
        (let directName = normalizeValue containerName;
             (cached, s1) = readResolveCache E directName s
         in if cached \<noteq> [] then (Inr cached, s1)
            else
              andThen
                (runDocker E cfg [''container'', ''inspect'', directName]
                   \<lparr>allowFailure = True, timeoutMs = 5000\<rparr>)
                (\<lambda>directInspect.
                   if code directInspect = 0
                   then (\<lambda>s2. (Inr directName, writeResolveCache E directName directName s2))
                   else
                     andThen (findContainerByComposeService E cfg directName)
                       (\<lambda>composeResolved s3.
                          if composeResolved \<noteq> []
                          then (Inr composeResolved,
                                writeResolveCache E composeResolved composeResolved
                                  (writeResolveCache E directName composeResolved s3))
                          else (Inl (Error (notFoundMessage directName) None), s3)))
                s1))"

definition execInContainer ::
  "'w env \<Rightarrow> config \<Rightarrow> string \<Rightarrow> string list \<Rightarrow> run_options \<Rightarrow> ('w, cmd_result) async" where
  "execInContainer E cfg containerName commandArgs options =
     andThen (resolveContainerTarget E cfg containerName)
       (\<lambda>resolved. runDocker E cfg (''exec'' # resolved # commandArgs) options)"

definition tailscaleStatus :: "'w env \<Rightarrow> config \<Rightarrow> bool \<Rightarrow> ('w, cmd_result) async" where
  "tailscaleStatus E cfg asJson =
     (if asJson
      then execInContainer E cfg (tailscaleContainer cfg) [''tailscale'', ''status'', ''--json'']
             defaultOptions
      else execInContainer E cfg (tailscaleContainer cfg) [''tailscale'', ''status'']
             defaultOptions)"

definition tailscalePing :: "'w env \<Rightarrow> config \<Rightarrow> string \<Rightarrow> string \<Rightarrow> ('w, cmd_result) async" where
  "tailscalePing E cfg target count =
     (let normalizedTarget = normalizeValue target
      in if normalizedTarget = []
         then (\<lambda>s. (Inl (Error ''tailscale ping requires target'' None), s))
         else
           (let pingCount = parsePositiveInt count 3 1 10
            in execInContainer E cfg (tailscaleContainer cfg)
                 [''tailscale'', ''ping'', ''-c'', stringOfInt pingCount, normalizedTarget]
                 defaultOptions))"

definition nginxTest :: "'w env \<Rightarrow> config \<Rightarrow> ('w, cmd_result) async" where
  "nginxTest E cfg = execInContainer E cfg (nginxContainer cfg) [''nginx'', ''-t''] defaultOptions"

definition nginxReload :: "'w env \<Rightarrow> config \<Rightarrow> ('w, cmd_result) async" where
  "nginxReload E cfg =
     andThen (nginxTest E cfg)
       (\<lambda>_. execInContainer E cfg (nginxContainer cfg) [''nginx'', ''-s'', ''reload'']
              defaultOptions)"

definition containerExec ::
  "'w env \<Rightarrow> config \<Rightarrow> string \<Rightarrow> string \<Rightarrow> string \<Rightarrow> ('w, cmd_result) async" where
  "containerExec E cfg containerName shellName commandText =
     andThen (resolveContainerTarget E cfg containerName)
       (\<lambda>resolved.
          let shell = (if normalizeValue shellName \<noteq> [] then normalizeValue shellName
                       else execShell cfg);
              safeShell = (if shell \<in> set [''sh'', ''bash'', ''zsh'', ''ash''] then shell else ''sh'');
              cmd = normalizeValue commandText
          in if cmd = []
             then (\<lambda>s. (Inl (Error ''container exec requires command'' None), s))
             else runDocker E cfg [''exec'', resolved, safeShell, ''-lc'', cmd]
                    \<lparr>allowFailure = True, timeoutMs = 0\<rparr>)"

text \<open>The remaining operations of the client.\<close>

definition tailscaleIp :: "'w env \<Rightarrow> config \<Rightarrow> ('w, cmd_result) async" where
  "tailscaleIp E cfg =
     execInContainer E cfg (tailscaleContainer cfg) [''tailscale'', ''ip'', ''-4''] defaultOptions"

definition nginxVersion :: "'w env \<Rightarrow> config \<Rightarrow> ('w, cmd_result) async" where
  "nginxVersion E cfg = execInContainer E cfg (nginxContainer cfg) [''nginx'', ''-v''] defaultOptions"

definition LOG_TYPES :: "(string \<times> string) list" where
  "LOG_TYPES =
     [(''access'', ''/var/log/nginx/app.access.log''),
      (''error'', ''/var/log/nginx/app.error.log''),
      (''shadow'', ''/var/log/nginx/shadow.mirror.log'')]"

text \<open>
  \<open>toLowerCase\<close> on code units below 256: the letters A to Z, and the capital letters
  of Latin-1 (192 to 222 without the multiplication sign 215).
\<close>

definition lowerChar :: "char \<Rightarrow> char" where
  "lowerChar ch =
     (let n = (of_char ch :: nat)
      in if (65 \<le> n \<and> n \<le> 90) \<or> (192 \<le> n \<and> n \<le> 222 \<and> n \<noteq> 215) then char_of (n + 32)
         else ch)"

definition toLowerCase :: "string \<Rightarrow> string" where
  "toLowerCase s = map lowerChar s"

text \<open>
  \<open>nginxLogs\<close> is called with one of the three keys of \<open>LOG_TYPES\<close> and a number of
  lines, which \<open>normalizeValue\<close> prints again before \<open>parsePositiveInt\<close> reads it.
\<close>

definition nginxLogs :: "'w env \<Rightarrow> config \<Rightarrow> string \<Rightarrow> int \<Rightarrow> ('w, cmd_result) async" where
  "nginxLogs E cfg logType tailLines =
     (case map_of LOG_TYPES (toLowerCase (normalizeValue logType)) of
        None \<Rightarrow> (\<lambda>s. (Inl (Error (''unsupported nginx log type: '' @ logType) None), s))
      | Some logFile \<Rightarrow>
          (let n = parsePositiveInt (stringOfInt tailLines) (defaultLogTail cfg) 1 (maxLogLines cfg)
           in execInContainer E cfg (nginxContainer cfg) [''tail'', ''-n'', stringOfInt n, logFile]
                \<lparr>allowFailure = True, timeoutMs = 0\<rparr>))"

definition systemCommand :: "'w env \<Rightarrow> config \<Rightarrow> string \<Rightarrow> ('w, cmd_result) async" where
  "systemCommand E cfg name =
     (if name = ''ps'' then runDocker E cfg [''ps'', ''-a''] defaultOptions
      else if name = ''images'' then runDocker E cfg [''images''] defaultOptions
      else if name = ''networks'' then runDocker E cfg [''network'', ''ls''] defaultOptions
      else if name = ''volumes'' then runDocker E cfg [''volume'', ''ls''] defaultOptions
      else if name = ''info'' then runDocker E cfg [''info''] defaultOptions
      else if name = ''version'' then runDocker E cfg [''version''] defaultOptions
      else (\<lambda>s. (Inl (Error (''unsupported system command: '' @ name) None), s)))"

definition systemPrune :: "'w env \<Rightarrow> config \<Rightarrow> string option \<Rightarrow> ('w, cmd_result) async" where
  "systemPrune E cfg scope =
     (let normalized = toLowerCase (normalizeValue (orEmpty scope))
      in if normalized = [] \<or> normalized = ''all''
         then runDocker E cfg [''system'', ''prune'', ''-f''] defaultOptions
         else if normalized = ''containers''
         then runDocker E cfg [''container'', ''prune'', ''-f''] defaultOptions
         else if normalized = ''images''
         then runDocker E cfg [''image'', ''prune'', ''-af''] defaultOptions
         else if normalized = ''networks''
         then runDocker E cfg [''network'', ''prune'', ''-f''] defaultOptions
         else if normalized = ''volumes''
         then runDocker E cfg [''volume'', ''prune'', ''-f''] defaultOptions
         else if normalized = ''builder''
         then runDocker E cfg [''builder'', ''prune'', ''-af''] defaultOptions
         else (\<lambda>s. (Inl (Error (''unsupported prune scope: '' @ orEmpty scope) None), s)))"

definition systemRaw :: "'w env \<Rightarrow> config \<Rightarrow> string list \<Rightarrow> ('w, cmd_result) async" where
  "systemRaw E cfg args =
     (if args = []
      then (\<lambda>s. (Inl (Error ''system raw command requires non-empty args'' None), s))
      else runDocker E cfg args defaultOptions)"

definition containerStatus :: "'w env \<Rightarrow> config \<Rightarrow> string \<Rightarrow> ('w, cmd_result) async" where
  "containerStatus E cfg containerName =
     andThen (resolveContainerTarget E cfg containerName)
       (\<lambda>resolved.
          runDocker E cfg [''ps'', ''-a'', ''--filter'', ''name=^/'' @ resolved @ ''$'']
            defaultOptions)"

definition containerLogs ::
  "'w env \<Rightarrow> config \<Rightarrow> string \<Rightarrow> string option \<Rightarrow> string option \<Rightarrow> string option
     \<Rightarrow> ('w, cmd_result) async" where
  "containerLogs E cfg containerName tail since timestamps =
     andThen (resolveContainerTarget E cfg containerName)
       (\<lambda>resolved.
          let n = parsePositiveInt (orEmpty tail) (defaultLogTail cfg) 1 (maxLogLines cfg);
              args0 = [''logs'', ''--tail'', stringOfInt n];
              args1 = (if normalizeValue (orEmpty since) \<noteq> []
                       then args0 @ [''--since'', normalizeValue (orEmpty since)] else args0);
              args2 = (if normalizeValue (orEmpty timestamps) = ''1''
                       then args1 @ [''--timestamps''] else args1)
          in runDocker E cfg (args2 @ [resolved]) \<lparr>allowFailure = True, timeoutMs = 0\<rparr>)"

definition containerInspect :: "'w env \<Rightarrow> config \<Rightarrow> string \<Rightarrow> ('w, cmd_result) async" where
  "containerInspect E cfg containerName =
     andThen (resolveContainerTarget E cfg containerName)
       (\<lambda>resolved. runDocker E cfg [''inspect'', resolved] defaultOptions)"

definition containerTop :: "'w env \<Rightarrow> config \<Rightarrow> string \<Rightarrow> ('w, cmd_result) async" where
  "containerTop E cfg containerName =
     andThen (resolveContainerTarget E cfg containerName)
       (\<lambda>resolved. runDocker E cfg [''top'', resolved] \<lparr>allowFailure = True, timeoutMs = 0\<rparr>)"

definition containerStats :: "'w env \<Rightarrow> config \<Rightarrow> string \<Rightarrow> ('w, cmd_result) async" where
  "containerStats E cfg containerName =
     andThen (resolveContainerTarget E cfg containerName)
       (\<lambda>resolved.
          runDocker E cfg [''stats'', ''--no-stream'', resolved]
            \<lparr>allowFailure = True, timeoutMs = 0\<rparr>)"

definition containerMutate :: "'w env \<Rightarrow> config \<Rightarrow> string \<Rightarrow> string \<Rightarrow> ('w, cmd_result) async" where
  "containerMutate E cfg containerName commandName =
     andThen (resolveContainerTarget E cfg containerName)
       (\<lambda>resolved.
          if commandName \<in> set [''start'', ''stop'', ''restart'', ''pause'', ''unpause'', ''kill'']
          then runDocker E cfg [commandName, resolved] \<lparr>allowFailure = True, timeoutMs = 0\<rparr>
          else if commandName = ''rm''
          then runDocker E cfg [''rm'', ''-f'', resolved] \<lparr>allowFailure = True, timeoutMs = 0\<rparr>
          else (\<lambda>s. (Inl (Error (''unsupported container command: '' @ commandName) None), s)))"

definition containerRename :: "'w env \<Rightarrow> config \<Rightarrow> string \<Rightarrow> string \<Rightarrow> ('w, cmd_result) async" where
  "containerRename E cfg containerName toName =
     andThen (resolveContainerTarget E cfg containerName)
       (\<lambda>resolved.
          if \<not> isContainerNameValid toName
          then (\<lambda>s. (Inl (Error (''invalid container name: '' @ toName) None), s))
          else runDocker E cfg [''rename'', resolved, toName]
                 \<lparr>allowFailure = True, timeoutMs = 0\<rparr>)"

definition containerUpdate :: "'w env \<Rightarrow> config \<Rightarrow> string \<Rightarrow> string list \<Rightarrow> ('w, cmd_result) async" where
  "containerUpdate E cfg containerName updateArgs =
     andThen (resolveContainerTarget E cfg containerName)
       (\<lambda>resolved.
          if updateArgs = []
          then (\<lambda>s. (Inl (Error ''container update requires args'' None), s))
          else runDocker E cfg (''update'' # updateArgs @ [resolved])
                 \<lparr>allowFailure = True, timeoutMs = 0\<rparr>)"

definition containerRaw :: "'w env \<Rightarrow> config \<Rightarrow> string \<Rightarrow> string list \<Rightarrow> ('w, cmd_result) async" where
  "containerRaw E cfg containerName args =
     andThen (resolveContainerTarget E cfg containerName)
       (\<lambda>resolved.
          if args = []
          then (\<lambda>s. (Inl (Error ''container raw command requires args'' None), s))
          else runDocker E cfg (args @ [resolved]) \<lparr>allowFailure = True, timeoutMs = 0\<rparr>)"

text \<open>
  For the statements below, the entries the operations leave in the record of \<open>spawn\<close>
  calls: the three calls that resolve a container name, and a command run in a container
  by \<open>docker exec\<close>, with what became of its process.
\<close>

definition composeFilterArgs :: "string \<Rightarrow> string list" where
  "composeFilterArgs service =
     [''--filter'', ''label=com.docker.compose.service='' @ service, ''--format'', ''{{.Names}}'']"

definition isResolveCall :: "config \<Rightarrow> string \<Rightarrow> string \<times> string list \<times> proc_outcome \<Rightarrow> bool" where
  "isResolveCall cfg name entry =
     (fst entry = dockerBin cfg
      \<and> fst (snd entry)
          \<in> set [[''container'', ''inspect'', name],
                  ''ps'' # composeFilterArgs name,
                  ''ps'' # ''-a'' # composeFilterArgs name])"

definition execCall ::
  "config \<Rightarrow> string \<Rightarrow> string list \<Rightarrow> proc_outcome \<Rightarrow> string \<times> string list \<times> proc_outcome" where
  "execCall cfg resolved commandArgs outcome =
     (dockerBin cfg, ''exec'' # resolved # commandArgs, outcome)"

definition isReloadCall :: "string \<times> string list \<times> proc_outcome \<Rightarrow> bool" where
  "isReloadCall entry =
     (length (fst (snd entry)) = 5 \<and> hd (fst (snd entry)) = ''exec''
      \<and> drop 2 (fst (snd entry)) = [''nginx'', ''-s'', ''reload''])"

definition exitedZero :: "proc_outcome \<Rightarrow> bool" where
  "exitedZero outcome = (case outcome of Closed (Some c) sig out err \<Rightarrow> c = 0 | _ \<Rightarrow> False)"

definition hasClosed :: "proc_outcome \<Rightarrow> bool" where
  "hasClosed outcome = (case outcome of Closed c sig out err \<Rightarrow> True | _ \<Rightarrow> False)"

section \<open>Runtime state and request handler (docker-manager/index.js)\<close>

text \<open>The object \<open>runtimeState\<close>; a time stamp is the ISO string, \<open>null\<close> is \<open>None\<close>.\<close>

record sync_result =
  changed :: bool
  previousIps :: "string list"
  nextIps :: "string list"
  added :: "string list"
  removed :: "string list"

record sync_state =
  enabled :: bool
  inProgress :: bool
  lastRunAt :: "string option"
  lastSuccessAt :: "string option"
  lastError :: string
  lastResult :: "sync_result option"
  totalRuns :: nat
  totalFailures :: nat

record runtime_state =
  startedAt :: string
  requestCount :: nat
  sync :: sync_state

text \<open>
  A request as the handler reads it: the method, the parsed URL (\<open>None\<close> when the \<open>URL\<close>
  constructor throws), and the body as its length in bytes and its text.
\<close>

record request =
  reqMethod :: string
  reqUrl :: "(string \<times> search_params) option"
  reqBodyBytes :: nat
  reqBodyText :: string

record http_response =
  statusCode :: nat
  contentType :: string
  cacheControl :: string
  responseBody :: string

definition respondText :: "nat \<Rightarrow> string \<Rightarrow> http_response" where
  "respondText status t =
     \<lparr>statusCode = status, contentType = ''text/plain; charset=utf-8'',
      cacheControl = ''no-store'',
      responseBody = (if endsWith t [CHR 0x0A] then t else t @ [CHR 0x0A])\<rparr>"

definition respondJson :: "'w env \<Rightarrow> nat \<Rightarrow> json \<Rightarrow> http_response" where
  "respondJson E status payload =
     \<lparr>statusCode = status, contentType = ''application/json; charset=utf-8'',
      cacheControl = ''no-store'',
      responseBody = jsonStringify E payload @ [CHR 0x0A]\<rparr>"

definition trimEnd :: "string \<Rightarrow> string" where
  "trimEnd s = rev (dropWhile isWhiteSpace (rev s))"

definition formatCommandResult :: "cmd_result \<Rightarrow> string" where
  "formatCommandResult r =
     joinWith [CHR 0x0A]
       ((if command r \<noteq> [] then [''$ '' @ command r] else [])
        @ [''exit='' @ stringOfInt (code r)]
        @ (if trimEnd (stdout r) \<noteq> [] then [''--- stdout ---'', trimEnd (stdout r)] else [])
        @ (if trimEnd (stderr r) \<noteq> [] then [''--- stderr ---'', trimEnd (stderr r)] else []))"

definition sendCommandResult :: "cmd_result \<Rightarrow> http_response" where
  "sendCommandResult r =
     (if code r \<noteq> 0 then respondText 500 (formatCommandResult r)
      else respondText 200 (formatCommandResult r))"

definition handleCommandError :: "js_error \<Rightarrow> http_response" where
  "handleCommandError e =
     (case errorResult e of
        Some r \<Rightarrow> sendCommandResult r
      | None \<Rightarrow>
          respondText 500 (''error: '' @ (if message e \<noteq> [] then message e else ''Error'')))"

definition parseRequestBody :: "'w env \<Rightarrow> request \<Rightarrow> nat \<Rightarrow> js_error + request_body" where
  "parseRequestBody E req limitBytes =
     (if reqBodyBytes req > limitBytes
      then Inl (Error (''request body too large (>'' @ digitsOf limitBytes @ '' bytes)'') None)
      else Inr \<lparr>bodyText = reqBodyText req,
                bodyJson =
                  (if normalizeValue (reqBodyText req) \<noteq> []
                   then (case jsonParse E (reqBodyText req) of Inr j \<Rightarrow> j | Inl _ \<Rightarrow> JNull)
                   else JNull)\<rparr>)"

text \<open>
  \<open>a || b\<close> on strings; \<open>orElseE\<close> where evaluating \<open>b\<close> may throw, which happens only
  when \<open>a\<close> is empty. \<open>withValue\<close> continues with a value or throws its error.
\<close>

definition orElse :: "string \<Rightarrow> string \<Rightarrow> string" where
  "orElse a b = (if a \<noteq> [] then a else b)"

definition orElseE :: "string \<Rightarrow> js_error + string \<Rightarrow> js_error + string" where
  "orElseE a b = (if a \<noteq> [] then Inr a else b)"

definition withValue :: "js_error + 'a \<Rightarrow> ('a \<Rightarrow> ('w, 'b) async) \<Rightarrow> ('w, 'b) async" where
  "withValue v run = (case v of Inl e \<Rightarrow> (\<lambda>s. (Inl e, s)) | Inr x \<Rightarrow> run x)"

definition collectCommandText :: "search_params \<Rightarrow> request_body \<Rightarrow> string" where
  "collectCommandText searchParams body =
     (let fromQuery =
            normalizeValue
              (orEmpty (if orEmpty (getParam searchParams ''cmd'') \<noteq> []
                        then getParam searchParams ''cmd''
                        else getParam searchParams ''command''))
      in if fromQuery \<noteq> [] then fromQuery
         else if jsTruthy (bodyJson body) then
           (case jsGet (bodyJson body) ''cmd'' of
              Some (JStr c) \<Rightarrow> normalizeValue c
            | _ \<Rightarrow>
                (case jsGet (bodyJson body) ''command'' of
                   Some (JStr c) \<Rightarrow> normalizeValue c
                 | _ \<Rightarrow> normalizeValue (bodyText body)))
         else normalizeValue (bodyText body))"

text \<open>
  \<open>ensureMethod\<close> and \<open>requirePermission\<close> give the response they send when they
  return false, and \<open>None\<close> when they return true.
\<close>

definition ensureMethod :: "request \<Rightarrow> string list \<Rightarrow> http_response option" where
  "ensureMethod req allow =
     (if reqMethod req \<in> set allow then None
      else Some (respondText 405
                   (''method not allowed: '' @ reqMethod req @ [CHR 0x0A] @ ''allowed: ''
                    @ joinWith '', '' allow)))"

definition requirePermission :: "config \<Rightarrow> string \<Rightarrow> http_response option" where
  "requirePermission cfg commandKey =
     (if isCommandAllowed cfg commandKey then None
      else Some (respondText 403 (''command is blocked by policy: '' @ commandKey)))"

text \<open>
  The two checks every route starts with: \<open>if (!ensureMethod(...)) return;
  if (!requirePermission(...)) return;\<close>, then the body of the route.
\<close>

definition guarded ::
  "request \<Rightarrow> config \<Rightarrow> string list \<Rightarrow> string \<Rightarrow> ('w, http_response) async
     \<Rightarrow> ('w, http_response) async" where
  "guarded req cfg methods commandKey run =
     (case ensureMethod req methods of
        Some r \<Rightarrow> (\<lambda>s. (Inr r, s))
      | None \<Rightarrow>
          (case requirePermission cfg commandKey of
             Some r \<Rightarrow> (\<lambda>s. (Inr r, s))
           | None \<Rightarrow> run))"

text \<open>\<open>const result = await ...; sendCommandResult(res, result)\<close>.\<close>

definition sendResultOf :: "('w, cmd_result) async \<Rightarrow> ('w, http_response) async" where
  "sendResultOf run = andThen run (\<lambda>r s. (Inr (sendCommandResult r), s))"

definition withBody ::
  "'w env \<Rightarrow> config \<Rightarrow> request \<Rightarrow> (request_body \<Rightarrow> ('w, 'a) async) \<Rightarrow> ('w, 'a) async" where
  "withBody E cfg req run =
     (case parseRequestBody E req (requestBodyLimitBytes cfg) of
        Inl e \<Rightarrow> (\<lambda>s. (Inl e, s))
      | Inr body \<Rightarrow> run body)"

definition markRow :: "config \<Rightarrow> string \<Rightarrow> string" where
  "markRow cfg key = (if isCommandAllowed cfg key then ''[x]'' else ''[ ]'') @ '' '' @ key"

definition policyText :: "command_policy \<Rightarrow> string" where
  "policyText p = (if allowAll p then ''*'' else joinWith '','' (allowSet p))"

definition buildHelpText :: "config \<Rightarrow> string" where
  "buildHelpText cfg =
     joinWith [CHR 0x0A]
       ([''docker-manager command groups'', [], ''safe commands:'']
        @ map (markRow cfg) SAFE_COMMAND_KEYS
        @ [[], ''dangerous commands:'']
        @ map (markRow cfg) DANGEROUS_COMMAND_KEYS
        @ [[], ''policy env:'',
           ''DOCKER_MANAGER_ENABLE_SAFE_COMMANDS='' @ (if enableSafeCommands cfg then ''1'' else ''0''),
           ''DOCKER_MANAGER_ENABLE_DANGEROUS_COMMANDS=''
             @ (if enableDangerousCommands cfg then ''1'' else ''0''),
           ''DOCKER_MANAGER_ALLOWED_SAFE_COMMANDS='' @ policyText (safeCommandsPolicy cfg),
           ''DOCKER_MANAGER_ALLOWED_DANGEROUS_COMMANDS='' @ policyText (dangerousCommandsPolicy cfg),
           ''DOCKER_MANAGER_BLOCKED_COMMANDS='' @ joinWith '','' (blockedCommands cfg),
           [], ''sample endpoints:'',
           ''GET  /dockerapi/healthz'',
           ''GET  /dockerapi/help'',
           ''GET  /dockerapi/tailscale/status'',
           ''GET  /dockerapi/tailscale/status?format=json'',
           ''POST /dockerapi/tailscale/ping?target=100.x.x.x'',
           ''GET  /dockerapi/nginx/test'',
           ''POST /dockerapi/nginx/reload'',
           ''GET  /dockerapi/nginx/version'',
           ''GET  /dockerapi/nginx/logs/access?tail=200'',
           ''GET  /dockerapi/system/ps'',
           ''POST /dockerapi/system/prune?scope=all'',
           ''GET  /dockerapi/{container}/status'',
           ''GET  /dockerapi/{container}/logs?tail=200'',
           ''POST /dockerapi/{container}/restart'',
           ''POST /dockerapi/{container}/exec?cmd=ls%20-la''])"

definition healthText :: "runtime_state \<Rightarrow> string" where
  "healthText rt =
     joinWith [CHR 0x0A]
       [''status=ok'',
        ''startedAt='' @ startedAt rt,
        ''requestCount='' @ digitsOf (requestCount rt),
        ''tailscaleSyncEnabled='' @ (if enabled (sync rt) then ''1'' else ''0''),
        ''tailscaleSyncInProgress='' @ (if inProgress (sync rt) then ''1'' else ''0''),
        ''tailscaleSyncLastRunAt='' @ orEmpty (lastRunAt (sync rt)),
        ''tailscaleSyncLastSuccessAt='' @ orEmpty (lastSuccessAt (sync rt)),
        ''tailscaleSyncTotalRuns='' @ digitsOf (totalRuns (sync rt)),
        ''tailscaleSyncTotalFailures='' @ digitsOf (totalFailures (sync rt)),
        ''tailscaleSyncLastError='' @ lastError (sync rt)]"

text \<open>
  The keys an object literal answers besides its own, among the lower-case names a route
  can ask for: \<open>constructor\<close> and \<open>__proto__\<close>, inherited from \<open>Object.prototype\<close>.
  What \<open>safeMap\<close> answers there has no \<open>key\<close>, so the permission asked is that of
  \<open>undefined\<close>; what \<open>safeReadonlyActions\<close> answers has no \<open>methods\<close>, so no method is
  allowed.
\<close>

definition inheritedKeys :: "string list" where
  "inheritedKeys = [''constructor'', ''__proto__'']"

definition handleSystemRoute ::
  "'w env \<Rightarrow> config \<Rightarrow> request \<Rightarrow> search_params \<Rightarrow> string \<Rightarrow> ('w, http_response) async" where
  "handleSystemRoute E cfg req searchParams commandName =
     (let safeMap =
            [(''ps'', (''system.ps'', ''ps'')), (''containers'', (''system.ps'', ''ps'')),
             (''images'', (''system.images'', ''images'')),
             (''networks'', (''system.networks'', ''networks'')),
             (''volumes'', (''system.volumes'', ''volumes'')),
             (''info'', (''system.info'', ''info'')),
             (''version'', (''system.version'', ''version''))]
      in case map_of safeMap commandName of
           Some (key, name) \<Rightarrow>
             guarded req cfg [''GET''] key (sendResultOf (systemCommand E cfg name))
         | None \<Rightarrow>
             if commandName \<in> set inheritedKeys
             then guarded req cfg [''GET''] ''undefined''
                    (\<lambda>s. (Inl (Error ''command.fn is not a function'' None), s))
             else if commandName = ''prune''
             then guarded req cfg [''POST''] ''system.prune''
                    (sendResultOf (systemPrune E cfg (getParam searchParams ''scope'')))
             else if commandName = ''raw''
             then guarded req cfg [''POST''] ''system.raw''
                    (sendResultOf
                       (withBody E cfg req
                          (\<lambda>body. withValue (collectArgs searchParams body) (systemRaw E cfg))))
             else (\<lambda>s. (Inr (respondText 404 (''unsupported system command: '' @ commandName)),
                         s)))"

definition handleContainerRoute ::
  "'w env \<Rightarrow> config \<Rightarrow> request \<Rightarrow> search_params \<Rightarrow> string \<Rightarrow> string
     \<Rightarrow> ('w, http_response) async" where
  "handleContainerRoute E cfg req searchParams containerName actionName =
     (if actionName = ''status''
      then guarded req cfg [''GET''] ''container.status''
             (sendResultOf (containerStatus E cfg containerName))
      else if actionName = ''logs''
      then guarded req cfg [''GET''] ''container.logs''
             (sendResultOf
                (containerLogs E cfg containerName (getParam searchParams ''tail'')
                   (getParam searchParams ''since'') (getParam searchParams ''timestamps'')))
      else if actionName = ''inspect''
      then guarded req cfg [''GET''] ''container.inspect''
             (sendResultOf (containerInspect E cfg containerName))
      else if actionName = ''top''
      then guarded req cfg [''GET''] ''container.top''
             (sendResultOf (containerTop E cfg containerName))
      else if actionName = ''stats''
      then guarded req cfg [''GET''] ''container.stats''
             (sendResultOf (containerStats E cfg containerName))
      else if actionName \<in> set inheritedKeys
      then (\<lambda>s. (Inr (respondText 405
                        (''method not allowed: '' @ reqMethod req @ [CHR 0x0A] @ ''allowed: '')),
                  s))
      else if actionName \<in> set [''start'', ''stop'', ''restart'', ''pause'', ''unpause'',
                                 ''kill'', ''rm'']
      then guarded req cfg [''POST''] (''container.'' @ actionName)
             (sendResultOf (containerMutate E cfg containerName actionName))
      else if actionName = ''exec''
      then guarded req cfg [''POST''] ''container.exec''
             (sendResultOf
                (withBody E cfg req
                   (\<lambda>body.
                      containerExec E cfg containerName
                        (orElse (normalizeValue (orEmpty (getParam searchParams ''shell'')))
                           (execShell cfg))
                        (collectCommandText searchParams body))))
      else if actionName = ''rename''
      then guarded req cfg [''POST''] ''container.rename''
             (sendResultOf
                (withBody E cfg req
                   (\<lambda>body.
                      withValue
                        (orElseE (normalizeValue (orEmpty (getParam searchParams ''to'')))
                           (normalizeJs (andGet (Some (bodyJson body)) ''to'')))
                        (containerRename E cfg containerName))))
      else if actionName = ''update''
      then guarded req cfg [''POST''] ''container.update''
             (sendResultOf
                (withBody E cfg req
                   (\<lambda>body.
                      withValue (collectArgs searchParams body)
                        (containerUpdate E cfg containerName))))
      else if actionName = ''raw''
      then guarded req cfg [''POST''] ''container.raw''
             (sendResultOf
                (withBody E cfg req
                   (\<lambda>body.
                      withValue (collectArgs searchParams body)
                        (containerRaw E cfg containerName))))
      else (\<lambda>s. (Inr (respondText 404 (''unsupported container action: '' @ actionName)), s)))"

text \<open>
  The three route patterns: a path segment is a non-empty run of letters, digits,
  \<open>_\<close> and \<open>-\<close>, and of \<open>.\<close> too in a container route.
\<close>

definition isSegment :: "bool \<Rightarrow> string \<Rightarrow> bool" where
  "isSegment withDot seg =
     (seg \<noteq> []
      \<and> list_all (\<lambda>ch. isAlnum ch \<or> ch = CHR ''_'' \<or> ch = CHR ''-'' \<or> (withDot \<and> ch = CHR ''.''))
           seg)"

definition stripPrefix :: "string \<Rightarrow> string \<Rightarrow> string option" where
  "stripPrefix p s = (if startsWith s p then Some (drop (length p) s) else None)"

definition nginxLogsMatch :: "string \<Rightarrow> string option" where
  "nginxLogsMatch pathname =
     (case stripPrefix ''/dockerapi/nginx/logs/'' pathname of
        Some seg \<Rightarrow> if isSegment False seg then Some seg else None
      | None \<Rightarrow> None)"

definition systemMatch :: "string \<Rightarrow> string option" where
  "systemMatch pathname =
     (case stripPrefix ''/dockerapi/system/'' pathname of
        Some seg \<Rightarrow> if isSegment False seg then Some seg else None
      | None \<Rightarrow> None)"

definition containerMatch :: "string \<Rightarrow> (string \<times> string) option" where
  "containerMatch pathname =
     (case stripPrefix ''/dockerapi/'' pathname of
        Some rest \<Rightarrow>
          (case splitOn CHR ''/'' rest of
             [a, b] \<Rightarrow> if isSegment True a \<and> isSegment True b then Some (a, b) else None
           | _ \<Rightarrow> None)
      | None \<Rightarrow> None)"

text \<open>The chain of routes inside the \<open>try\<close> block of \<open>requestHandler\<close>.\<close>

definition dockerapiRoutes ::
  "'w env \<Rightarrow> config \<Rightarrow> runtime_state \<Rightarrow> request \<Rightarrow> string \<Rightarrow> search_params
     \<Rightarrow> ('w, http_response) async" where
  "dockerapiRoutes E cfg rt req pathname searchParams =
     (if pathname = ''/dockerapi'' \<or> pathname = ''/dockerapi/''
      then guarded req cfg [''GET''] ''help'' (\<lambda>s. (Inr (respondText 200 (buildHelpText cfg)), s))
      else if pathname = ''/dockerapi/help''
      then guarded req cfg [''GET''] ''help'' (\<lambda>s. (Inr (respondText 200 (buildHelpText cfg)), s))
      else if pathname = ''/dockerapi/healthz''
      then guarded req cfg [''GET''] ''healthz'' (\<lambda>s. (Inr (respondText 200 (healthText rt)), s))
      else if pathname = ''/dockerapi/tailscale/status''
      then guarded req cfg [''GET''] ''tailscale.status''
             (let asJson =
                    (toLowerCase (normalizeValue (orEmpty (getParam searchParams ''format'')))
                     = ''json'')
              in andThen (tailscaleStatus E cfg asJson)
                   (\<lambda>r s.
                      if asJson
                      then (case jsonParse E (orElse (normalizeValue (stdout r)) ''{}'') of
                              Inr parsed \<Rightarrow> (Inr (respondJson E 200 parsed), s)
                            | Inl _ \<Rightarrow> (Inr (respondText 500 (formatCommandResult r)), s))
                      else (Inr (sendCommandResult r), s)))
      else if pathname = ''/dockerapi/tailscale/ping''
      then guarded req cfg [''POST''] ''tailscale.ping''
             (sendResultOf
                (withBody E cfg req
                   (\<lambda>body.
                      withValue
                        (orElseE (normalizeValue (orEmpty (getParam searchParams ''target'')))
                           (case normalizeJs (andGet (Some (bodyJson body)) ''target'') of
                              Inl e \<Rightarrow> Inl e
                            | Inr t \<Rightarrow> Inr (orElse t (normalizeValue (bodyText body)))))
                        (\<lambda>target.
                           withValue
                             (orElseE (normalizeValue (orEmpty (getParam searchParams ''count'')))
                                (normalizeJs (andGet (Some (bodyJson body)) ''count'')))
                             (tailscalePing E cfg target)))))
      else if pathname = ''/dockerapi/tailscale/ip''
      then guarded req cfg [''GET''] ''tailscale.ip'' (sendResultOf (tailscaleIp E cfg))
      else if pathname = ''/dockerapi/nginx/test''
      then guarded req cfg [''GET''] ''nginx.test'' (sendResultOf (nginxTest E cfg))
      else if pathname = ''/dockerapi/nginx/reload''
      then guarded req cfg [''POST''] ''nginx.reload'' (sendResultOf (nginxReload E cfg))
      else if pathname = ''/dockerapi/nginx/version''
      then guarded req cfg [''GET''] ''nginx.version'' (sendResultOf (nginxVersion E cfg))
      else
        (case nginxLogsMatch pathname of
           Some seg \<Rightarrow>
             (case ensureMethod req [''GET''] of
                Some r \<Rightarrow> (\<lambda>s. (Inr r, s))
              | None \<Rightarrow>
                  (let logType = toLowerCase (normalizeValue seg)
                   in if logType \<notin> set [''access'', ''error'', ''shadow'']
                      then (\<lambda>s. (Inr (respondText 404 (''unsupported nginx log type: '' @ logType)),
                                  s))
                      else
                        (case requirePermission cfg (''nginx.logs.'' @ logType) of
                           Some r \<Rightarrow> (\<lambda>s. (Inr r, s))
                         | None \<Rightarrow>
                             sendResultOf
                               (nginxLogs E cfg logType
                                  (parsePositiveInt (orEmpty (getParam searchParams ''tail''))
                                     (defaultLogTail cfg) 1 (maxLogLines cfg))))))
         | None \<Rightarrow>
             (case systemMatch pathname of
                Some seg \<Rightarrow>
                  handleSystemRoute E cfg req searchParams (toLowerCase (normalizeValue seg))
              | None \<Rightarrow>
                  (case containerMatch pathname of
                     Some (a, b) \<Rightarrow>
                       handleContainerRoute E cfg req searchParams (normalizeValue a)
                         (toLowerCase (normalizeValue b))
                   | None \<Rightarrow> (\<lambda>s. (Inr (respondText 404 ''dockerapi route not found''), s))))))"

definition requestHandler ::
  "'w env \<Rightarrow> config \<Rightarrow> request \<Rightarrow> runtime_state \<times> 'w state
     \<Rightarrow> http_response \<times> runtime_state \<times> 'w state" where
  "requestHandler E cfg req st =
     (let rt = (fst st)\<lparr>requestCount := requestCount (fst st) + 1\<rparr>;
          s = snd st
      in case reqUrl req of
           None \<Rightarrow> (respondText 400 ''invalid request url'', rt, s)
         | Some (pathname, searchParams) \<Rightarrow>
             if \<not> startsWith pathname ''/dockerapi''
             then (respondText 404 ''not found'', rt, s)
             else
               (case dockerapiRoutes E cfg rt req pathname searchParams s of
                  (Inr response, s') \<Rightarrow> (response, rt, s')
                | (Inl e, s') \<Rightarrow> (handleCommandError e, rt, s')))"

section \<open>Shadow reconciliation (docker-manager/lib/tailscale-shadow-sync.js)\<close>

text \<open>
  \<open>IPV4_PATTERN\<close> is \<open>^\d{1,3}(\.\d{1,3}){3}$\<close>: four runs of one to three digits between
  dots. \<open>isIpv4\<close> tests the trimmed text, then each octet against 255.
\<close>

definition isIpv4 :: "string \<Rightarrow> bool" where
  "isIpv4 v =
     (let parts = splitOn CHR ''.'' (normalizeValue v)
      in length parts = 4
         \<and> list_all (\<lambda>p. p \<noteq> [] \<and> length p \<le> 3 \<and> list_all isDigit p) parts
         \<and> list_all (\<lambda>p. readDigits p \<le> 255) parts)"

text \<open>
  The calls of \<open>fs\<close> on the shadow directory, which is taken to exist. Writing to the path
  of a directory, renaming a file onto a directory and removing a directory without
  \<open>recursive\<close> throw; removing a missing path with \<open>force\<close> does nothing.
\<close>

definition shadowPath :: "config \<Rightarrow> string \<Rightarrow> string" where
  "shadowPath cfg name = shadowDir cfg @ ''/'' @ name"

definition quoted :: "string \<Rightarrow> string" where
  "quoted t = [CHR 0x27] @ t @ [CHR 0x27]"

definition writeFileSync :: "config \<Rightarrow> string \<Rightarrow> string \<Rightarrow> ('w, unit) async" where
  "writeFileSync cfg name content s =
     (let s' = s\<lparr>fsCalls := fsCalls s @ [WriteFile name content]\<rparr>
      in case map_of (shadowFiles s) name of
           Some Directory \<Rightarrow>
             (Inl (Error (''EISDIR: illegal operation on a directory, open ''
                          @ quoted (shadowPath cfg name)) None), s')
         | _ \<Rightarrow> (Inr (), s'\<lparr>shadowFiles := AList.update name (File content) (shadowFiles s)\<rparr>))"

definition renameSync :: "config \<Rightarrow> string \<Rightarrow> string \<Rightarrow> ('w, unit) async" where
  "renameSync cfg source target s =
     (let s' = s\<lparr>fsCalls := fsCalls s @ [Rename source target]\<rparr>;
          names = quoted (shadowPath cfg source) @ '' -> '' @ quoted (shadowPath cfg target)
      in case map_of (shadowFiles s) source of
           None \<Rightarrow> (Inl (Error (''ENOENT: no such file or directory, rename '' @ names) None), s')
         | Some (File content) \<Rightarrow>
             (case map_of (shadowFiles s) target of
                Some Directory \<Rightarrow>
                  (Inl (Error (''EISDIR: illegal operation on a directory, rename '' @ names)
                          None), s')
              | _ \<Rightarrow>
                  (Inr (), s'\<lparr>shadowFiles :=
                                 AList.update target (File content)
                                   (AList.delete source (shadowFiles s))\<rparr>))
         | Some Directory \<Rightarrow>
             (case map_of (shadowFiles s) target of
                Some (File content) \<Rightarrow>
                  (Inl (Error (''ENOTDIR: not a directory, rename '' @ names) None), s')
              | _ \<Rightarrow>
                  (Inr (), s'\<lparr>shadowFiles :=
                                 AList.update target Directory
                                   (AList.delete source (shadowFiles s))\<rparr>)))"

definition rmSync :: "config \<Rightarrow> string \<Rightarrow> ('w, unit) async" where
  "rmSync cfg name s =
     (let s' = s\<lparr>fsCalls := fsCalls s @ [Remove name]\<rparr>
      in case map_of (shadowFiles s) name of
           Some Directory \<Rightarrow>
             (Inl (Error (''Path is a directory: rm returned EISDIR (is a directory) ''
                          @ shadowPath cfg name) None), s')
         | _ \<Rightarrow> (Inr (), s'\<lparr>shadowFiles := AList.delete name (shadowFiles s)\<rparr>))"

text \<open>
  The test both directory scans make on an entry: a regular file whose name ends in
  \<open>.conf\<close> and whose stem is an IPv4 address gives that stem.
\<close>

definition shadowIpOf :: "string \<times> fs_entry \<Rightarrow> string option" where
  "shadowIpOf item =
     (case snd item of
        Directory \<Rightarrow> None
      | File content \<Rightarrow>
          if endsWith (fst item) ''.conf''
          then (let ip = take (length (fst item) - 5) (fst item)
                in if isIpv4 ip then Some ip else None)
          else None)"

text \<open>
  \<open>readShadowFiles\<close> builds its \<open>Map\<close>, here the list of its entries in insertion order,
  from the entries of the directory in the order \<open>readdirSync\<close> lists them.
\<close>

definition readShadowFiles :: "(string \<times> fs_entry) list \<Rightarrow> (string \<times> string) list" where
  "readShadowFiles files =
     foldl (\<lambda>state item.
              case (shadowIpOf item, snd item) of
                (Some ip, File content) \<Rightarrow> AList.update ip content state
              | _ \<Rightarrow> state)
       [] files"

definition renderShadowContent :: "string \<Rightarrow> nat \<Rightarrow> string" where
  "renderShadowContent ip portNumber =
     ''server '' @ ip @ '':'' @ digitsOf portNumber @ '' max_fails=2 fail_timeout=10s;'' @ [CHR 0x0A]"

text \<open>The \<open>Set\<close> \<open>existingFiles\<close> that \<open>writeShadowState\<close> collects first.\<close>

definition existingFiles :: "(string \<times> fs_entry) list \<Rightarrow> string list" where
  "existingFiles files =
     foldl (\<lambda>found item.
              case shadowIpOf item of
                Some ip \<Rightarrow> if ip \<in> set found then found else found @ [ip]
              | None \<Rightarrow> found)
       [] files"

text \<open>
  The two loops of \<open>writeShadowState\<close>: write every desired entry to a temporary file
  and rename it into place, then remove the files of the addresses that were found and
  are not desired. What a call of \<open>fs\<close> throws ends the function.
\<close>

fun writeEntries :: "config \<Rightarrow> (string \<times> string) list \<Rightarrow> ('w, unit) async" where
  "writeEntries cfg [] = (\<lambda>s. (Inr (), s))"
| "writeEntries cfg ((ip, content) # rest) =
     andThen (writeFileSync cfg (ip @ ''.conf.tmp'') content)
       (\<lambda>_. andThen (renameSync cfg (ip @ ''.conf.tmp'') (ip @ ''.conf''))
              (\<lambda>_. writeEntries cfg rest))"

fun removeEntries :: "config \<Rightarrow> string list \<Rightarrow> ('w, unit) async" where
  "removeEntries cfg [] = (\<lambda>s. (Inr (), s))"
| "removeEntries cfg (ip # rest) =
     andThen (rmSync cfg (ip @ ''.conf'')) (\<lambda>_. removeEntries cfg rest)"

definition writeShadowState :: "config \<Rightarrow> (string \<times> string) list \<Rightarrow> ('w, unit) async" where
  "writeShadowState cfg desiredState s =
     (let found = existingFiles (shadowFiles s)
      in andThen (writeEntries cfg desiredState)
           (\<lambda>_. removeEntries cfg (filter (\<lambda>ip. ip \<notin> set (map fst desiredState)) found))
           s)"

text \<open>The validation and the reload that \<open>applyStateWithRollback\<close> awaits, twice.\<close>

definition testAndReload :: "'w env \<Rightarrow> config \<Rightarrow> string \<Rightarrow> ('w, cmd_result) async" where
  "testAndReload E cfg nginxContainerName =
     andThen (nginxTest E cfg)
       (\<lambda>_. execInContainer E cfg nginxContainerName [''nginx'', ''-s'', ''reload'']
              defaultOptions)"

definition applyStateWithRollback ::
  "'w env \<Rightarrow> config \<Rightarrow> (string \<times> string) list \<Rightarrow> (string \<times> string) list \<Rightarrow> string
     \<Rightarrow> ('w, unit) async" where
  "applyStateWithRollback E cfg previousState desiredState nginxContainerName =
     andThen (writeShadowState cfg desiredState)
       (\<lambda>_ s1.
          case testAndReload E cfg nginxContainerName s1 of
            (Inr _, s2) \<Rightarrow> (Inr (), s2)
          | (Inl error, s2) \<Rightarrow>
              (case writeShadowState cfg previousState s2 of
                 (Inl fsError, s3) \<Rightarrow> (Inl fsError, s3)
               | (Inr _, s3) \<Rightarrow>
                   (case testAndReload E cfg nginxContainerName s3 of
                      (_, s4) \<Rightarrow> (Inl error, s4))))"

text \<open>
  \<open>Object.values\<close> of a parsed object: the values of its keys, array indices first in
  ascending order, then the other keys in the order they first appear; of an array, its
  elements.
\<close>

definition isArrayIndex :: "string \<Rightarrow> bool" where
  "isArrayIndex key =
     (key \<noteq> [] \<and> list_all isDigit key \<and> (key = ''0'' \<or> hd key \<noteq> CHR ''0'')
      \<and> readDigits key < 2 ^ 32 - 1)"

definition ownKeys :: "(string \<times> json) list \<Rightarrow> string list" where
  "ownKeys kvs =
     (let keys = rev (remdups (rev (map fst kvs)))
      in sort_key readDigits (filter isArrayIndex keys)
         @ filter (\<lambda>k. \<not> isArrayIndex k) keys)"

definition objectValues :: "json \<Rightarrow> json list" where
  "objectValues v =
     (case v of
        JObj kvs \<Rightarrow> map (\<lambda>k. case map_of (rev kvs) k of Some x \<Rightarrow> x | None \<Rightarrow> JNull) (ownKeys kvs)
      | JArr xs \<Rightarrow> xs
      | _ \<Rightarrow> [])"

definition isObject :: "json \<Rightarrow> bool" where
  "isObject v = (case v of JObj kvs \<Rightarrow> True | JArr xs \<Rightarrow> True | _ \<Rightarrow> False)"

definition isPeerActive :: "json \<Rightarrow> js_error + bool" where
  "isPeerActive peer =
     (let rawFlags = [jsGet peer ''Online'', jsGet peer ''online'', jsGet peer ''Active'',
                      jsGet peer ''active''];
          explicitFlags =
            filter (\<lambda>v. v = Some (JBool True) \<or> v = Some (JBool False)) rawFlags
      in if explicitFlags \<noteq> [] then Inr (Some (JBool True) \<in> set explicitFlags)
         else (case normalizeJs (jsOr (jsGet peer ''CurAddr'') (jsGet peer ''curAddr'')) of
                 Inl e \<Rightarrow> Inl e
               | Inr curAddr \<Rightarrow> Inr (curAddr \<noteq> [])))"

text \<open>The inner loop of \<open>collectNodeIps\<close> over one candidate list, then the outer one.\<close>

fun collectItems :: "string list \<Rightarrow> json list \<Rightarrow> js_error + string list" where
  "collectItems ipValues [] = Inr ipValues"
| "collectItems ipValues (item # items) =
     (case normalizeJs (Some item) of
        Inl e \<Rightarrow> Inl e
      | Inr ip \<Rightarrow>
          collectItems (if isIpv4 ip \<and> ip \<notin> set ipValues then ipValues @ [ip] else ipValues)
            items)"

fun collectLists :: "string list \<Rightarrow> jsval list \<Rightarrow> js_error + string list" where
  "collectLists ipValues [] = Inr ipValues"
| "collectLists ipValues (candidate # candidates) =
     (case candidate of
        Some (JArr items) \<Rightarrow>
          (case collectItems ipValues items of
             Inl e \<Rightarrow> Inl e
           | Inr ipValues' \<Rightarrow> collectLists ipValues' candidates)
      | _ \<Rightarrow> collectLists ipValues candidates)"

definition collectNodeIps :: "json \<Rightarrow> js_error + string list" where
  "collectNodeIps node =
     collectLists []
       [andGet (Some node) ''TailscaleIPs'', andGet (Some node) ''tailscaleIPs'',
        andGet (Some node) ''tailscaleIps'', andGet (Some node) ''Addresses'',
        andGet (Some node) ''addresses'', andGet (Some node) ''ips'']"

text \<open>The loop of \<open>extractActivePeerIps\<close> over the peers.\<close>

fun selectPeers :: "string list \<Rightarrow> string \<Rightarrow> string list \<Rightarrow> json list \<Rightarrow> js_error + string list" where
  "selectPeers selfIps selfId selectedIps [] = Inr selectedIps"
| "selectPeers selfIps selfId selectedIps (peer # peers) =
     (if \<not> jsTruthy peer \<or> \<not> isObject peer
      then selectPeers selfIps selfId selectedIps peers
      else
        (case normalizeJs (jsOr (jsGet peer ''ID'') (jsGet peer ''id'')) of
           Inl e \<Rightarrow> Inl e
         | Inr peerId \<Rightarrow>
             if jsGet peer ''Self'' = Some (JBool True)
             then selectPeers selfIps selfId selectedIps peers
             else if selfId \<noteq> [] \<and> peerId \<noteq> [] \<and> selfId = peerId
             then selectPeers selfIps selfId selectedIps peers
             else
               (case isPeerActive peer of
                  Inl e \<Rightarrow> Inl e
                | Inr active \<Rightarrow>
                    if \<not> active then selectPeers selfIps selfId selectedIps peers
                    else
                      (case collectNodeIps peer of
                         Inl e \<Rightarrow> Inl e
                       | Inr ips \<Rightarrow>
                           selectPeers selfIps selfId
                             (foldl (\<lambda>selected ip.
                                       if ip \<in> set selfIps \<or> ip \<in> set selected then selected
                                       else selected @ [ip])
                                selectedIps ips)
                             peers))))"

text \<open>
  \<open>Array.prototype.sort\<close> is stable; with a comparator that orders consistently, as a
  collation does, it gives what insertion from left to right gives.
\<close>

fun insertSorted :: "('a \<Rightarrow> 'a \<Rightarrow> int) \<Rightarrow> 'a \<Rightarrow> 'a list \<Rightarrow> 'a list" where
  "insertSorted cmp x [] = [x]"
| "insertSorted cmp x (y # ys) =
     (if cmp x y < 0 then x # y # ys else y # insertSorted cmp x ys)"

definition sortWith :: "('a \<Rightarrow> 'a \<Rightarrow> int) \<Rightarrow> 'a list \<Rightarrow> 'a list" where
  "sortWith cmp xs = foldl (\<lambda>sorted x. insertSorted cmp x sorted) [] xs"

definition extractActivePeerIps :: "'w env \<Rightarrow> json \<Rightarrow> js_error + string list" where
  "extractActivePeerIps E statusPayload =
     (let peerField = andGet (Some statusPayload) ''Peer'';
          peers = (case peerField of
                     Some p \<Rightarrow> if jsTruthy p \<and> isObject p then objectValues p else []
                   | None \<Rightarrow> []);
          selfField = andGet (Some statusPayload) ''Self'';
          selfNode = (case selfField of
                        Some n \<Rightarrow> if jsTruthy n \<and> jsTruthy statusPayload then n else JObj []
                      | None \<Rightarrow> JObj [])
      in case collectNodeIps selfNode of
           Inl e \<Rightarrow> Inl e
         | Inr selfIps \<Rightarrow>
             (case normalizeJs (jsOr (jsGet selfNode ''ID'') (jsGet selfNode ''id'')) of
                Inl e \<Rightarrow> Inl e
              | Inr selfId \<Rightarrow>
                  (case selectPeers selfIps selfId [] peers of
                     Inl e \<Rightarrow> Inl e
                   | Inr selectedIps \<Rightarrow> Inr (sortWith (localeCompare E) selectedIps))))"

text \<open>
  The difference \<open>runTailscaleShadowSync\<close> computes between the addresses on disk and
  the active ones, as the result record it logs and returns.
\<close>

definition shadowDiff :: "'w env \<Rightarrow> (string \<times> string) list \<Rightarrow> string list \<Rightarrow> sync_result" where
  "shadowDiff E previousState nextIps' =
     (let previousIps' = sortWith (localeCompare E) (map fst previousState);
          added' = filter (\<lambda>ip. ip \<notin> set (map fst previousState)) nextIps';
          removed' = filter (\<lambda>ip. ip \<notin> set nextIps') previousIps'
      in \<lparr>changed = (added' \<noteq> [] \<or> removed' \<noteq> []), previousIps = previousIps',
          nextIps = nextIps', added = added', removed = removed'\<rparr>)"

definition runTailscaleShadowSync :: "'w env \<Rightarrow> config \<Rightarrow> ('w, sync_result) async" where
  "runTailscaleShadowSync E cfg =
     andThen (tailscaleStatus E cfg True)
       (\<lambda>statusResult.
          case jsonParse E (orElse (stdout statusResult) ''{}'') of
            Inl msg \<Rightarrow> (\<lambda>s. (Inl (Error (''invalid tailscale status json: '' @ msg) None), s))
          | Inr payload \<Rightarrow>
              withValue (extractActivePeerIps E payload)
                (\<lambda>nextIps' s.
                   let previousState = readShadowFiles (shadowFiles s);
                       nextState =
                         foldl (\<lambda>m ip. AList.update ip (renderShadowContent ip (shadowPort cfg)) m)
                           [] nextIps';
                       result = shadowDiff E previousState nextIps'
                   in if \<not> changed result then (Inr result, s)
                      else andThen
                             (applyStateWithRollback E cfg previousState nextState
                                (nginxContainer cfg))
                             (\<lambda>_ s'. (Inr result, s'))
                             s))"

section \<open>Scheduled reconciliation (docker-manager/index.js)\<close>

text \<open>
  \<open>runScheduledSync\<close> runs in two uninterrupted parts, before and after its \<open>await\<close>:
  \<open>syncBegin\<close> up to the call of the cycle, \<open>syncEnd\<close> from its settlement through the
  \<open>finally\<close> block. Both take the time stamp \<open>new Date().toISOString()\<close> gives then.
\<close>

datatype begin_outcome = Disabled | Skipped | Started

definition syncBegin :: "config \<Rightarrow> string \<Rightarrow> runtime_state \<Rightarrow> begin_outcome \<times> runtime_state" where
  "syncBegin cfg now rt =
     (if \<not> tailscaleSyncEnabled cfg then (Disabled, rt)
      else if inProgress (sync rt) then (Skipped, rt)
      else (Started,
            rt\<lparr>sync := (sync rt)\<lparr>inProgress := True, lastRunAt := Some now,
                                   totalRuns := totalRuns (sync rt) + 1\<rparr>\<rparr>))"

definition syncEnd :: "js_error + sync_result \<Rightarrow> string \<Rightarrow> runtime_state \<Rightarrow> runtime_state" where
  "syncEnd settled now rt =
     (let after =
            (case settled of
               Inr result \<Rightarrow>
                 (sync rt)\<lparr>lastResult := Some result, lastSuccessAt := Some now, lastError := []\<rparr>
             | Inl error \<Rightarrow>
                 (sync rt)\<lparr>totalFailures := totalFailures (sync rt) + 1,
                           lastError := (if message error \<noteq> [] then message error
                                         else ''Error'')\<rparr>)
      in rt\<lparr>sync := after\<lparr>inProgress := False\<rparr>\<rparr>)"

text \<open>One call of \<open>runScheduledSync\<close> that nothing interleaves with.\<close>

definition runScheduledSync ::
  "'w env \<Rightarrow> config \<Rightarrow> runtime_state \<times> 'w state \<Rightarrow> runtime_state \<times> 'w state" where
  "runScheduledSync E cfg st =
     (case syncBegin cfg (toISOString E (dateNow E (world (snd st)))) (fst st) of
        (Started, rt) \<Rightarrow>
          (case runTailscaleShadowSync E cfg (snd st) of
             (settled, s') \<Rightarrow> (syncEnd settled (toISOString E (dateNow E (world s'))) rt, s'))
      | (_, rt) \<Rightarrow> (rt, snd st))"

text \<open>
  The timers and the cycles interleave at the \<open>await\<close> only. An event is a trigger firing
  (the startup timer or the interval) or the cycle of an earlier trigger settling; the
  machine keeps, beside the run state, the number of cycles begun and not yet settled.
\<close>

datatype sync_event = Fire string | Settle "js_error + sync_result" string

definition syncStep :: "config \<Rightarrow> runtime_state \<times> nat \<Rightarrow> sync_event \<Rightarrow> runtime_state \<times> nat" where
  "syncStep cfg st ev =
     (case ev of
        Fire now \<Rightarrow>
          (case syncBegin cfg now (fst st) of
             (Started, rt) \<Rightarrow> (rt, snd st + 1)
           | (_, rt) \<Rightarrow> (rt, snd st))
      | Settle settled now \<Rightarrow>
          if snd st = 0 then st else (syncEnd settled now (fst st), snd st - 1))"

definition syncRun :: "config \<Rightarrow> runtime_state \<times> nat \<Rightarrow> sync_event list \<Rightarrow> runtime_state \<times> nat" where
  "syncRun cfg st evs = foldl (syncStep cfg) st evs"

text \<open>The run state a process starts with.\<close>

definition initialRuntimeState :: "config \<Rightarrow> string \<Rightarrow> runtime_state" where
  "initialRuntimeState cfg started =
     \<lparr>startedAt = started, requestCount = 0,
      sync = \<lparr>enabled = tailscaleSyncEnabled cfg, inProgress = False, lastRunAt = None,
              lastSuccessAt = None, lastError = [], lastResult = None, totalRuns = 0,
              totalFailures = 0\<rparr>\<rparr>"

section \<open>Example configurations and environments\<close>

text \<open>
  The configuration \<open>createConfig\<close> builds when no environment variable is set, the
  state of a freshly started process, and environments whose processes answer by a fixed
  script; the clock of such an environment advances by one at every process spawned.
\<close>

definition defaultConfig :: config where
  "defaultConfig =
     \<lparr>port = 18080, dockerBin = ''docker'', requestBodyLimitBytes = 65536,
      commandTimeoutMs = 120000, maxLogLines = 2000, defaultLogTail = 200,
      tailscaleSyncEnabled = True, tailscaleContainer = ''tailscale'',
      nginxContainer = ''nginx'', shadowDir = ''/opt/nginx/shadow-servers'',
      shadowPort = 3000, enableSafeCommands = True,
      enableDangerousCommands = True,
      safeCommandsPolicy = \<lparr>allowAll = True, allowSet = SAFE_COMMAND_KEYS\<rparr>,
      dangerousCommandsPolicy = \<lparr>allowAll = True, allowSet = DANGEROUS_COMMAND_KEYS\<rparr>,
      blockedCommands = [], execShell = ''sh''\<rparr>"

definition initialState :: "'w \<Rightarrow> 'w state" where
  "initialState w =
     \<lparr>world = w, containerResolveCache = Map.empty, shadowFiles = [], fsCalls = [],
      spawned = []\<rparr>"

definition scriptedEnv :: "(string list \<Rightarrow> proc_outcome) \<Rightarrow> nat env" where
  "scriptedEnv answer =
     \<lparr>spawn = (\<lambda>cmd args deadline w. (answer args, w + 1)),
      dateNow = (\<lambda>w. w),
      jsonParse = (\<lambda>t. Inl ''Unexpected token''),
      localeCompare = (\<lambda>left right. 0),
      toISOString = digitsOf,
      jsonStringify = (\<lambda>j. orEmpty (jsString j))\<rparr>"

definition allSucceed :: "string list \<Rightarrow> proc_outcome" where
  "allSucceed args = Closed (Some 0) None [] []"

definition validationFails :: "string list \<Rightarrow> proc_outcome" where
  "validationFails args =
     (if args = [''exec'', ''nginx'', ''nginx'', ''-t'']
      then Closed (Some 1) None [] ''nginx: configuration file test failed''
      else Closed (Some 0) None [] [])"


section \<open>Properties of the command policy\<close>

lemma catalog_keys_distinct: "distinct (SAFE_COMMAND_KEYS @ DANGEROUS_COMMAND_KEYS)"
  by (simp add: SAFE_COMMAND_KEYS_def DANGEROUS_COMMAND_KEYS_def)

lemma specs_keys: "map fst COMMAND_SPECS = SAFE_COMMAND_KEYS @ DANGEROUS_COMMAND_KEYS"
  by (simp add: COMMAND_SPECS_def comp_def)

lemma command_map_none: "\<not> inCatalog name \<Longrightarrow> COMMAND_MAP name = None"
proof -
  assume "\<not> inCatalog name"
  then have "name \<notin> fst ` set (rev COMMAND_SPECS)"
    by (simp add: inCatalog_def COMMAND_SPECS_def image_Un image_image)
  then show ?thesis
    unfolding COMMAND_MAP_def by (simp add: map_of_eq_None_iff)
qed

lemma command_map_some: "inCatalog name \<Longrightarrow> COMMAND_MAP name = Some (categoryOf name)"
proof -
  assume cat: "inCatalog name"
  have d: "distinct (map fst (rev COMMAND_SPECS))"
    using catalog_keys_distinct by (simp only: rev_map [symmetric] specs_keys distinct_rev)
  have "(name, categoryOf name) \<in> set (rev COMMAND_SPECS)"
  proof (cases "name \<in> set SAFE_COMMAND_KEYS")
    case True
    then show ?thesis by (auto simp: COMMAND_SPECS_def categoryOf_def)
  next
    case False
    with cat have "name \<in> set DANGEROUS_COMMAND_KEYS" by (simp add: inCatalog_def)
    with False show ?thesis by (auto simp: COMMAND_SPECS_def categoryOf_def)
  qed
  with d show ?thesis
    unfolding COMMAND_MAP_def by (rule map_of_is_SomeI)
qed

lemma isCommandAllowed_char:
  "isCommandAllowed config name =
     (inCatalog name
      \<and> categoryEnabled config (categoryOf name)
      \<and> (allowAll (categoryPolicy config (categoryOf name))
           \<or> name \<in> set (allowSet (categoryPolicy config (categoryOf name))))
      \<and> name \<notin> set (blockedCommands config))"
proof (cases "inCatalog name")
  case False
  then show ?thesis
    by (simp add: isCommandAllowed_def command_map_none)
next
  case True
  then show ?thesis
    by (cases "categoryOf name")
       (auto simp: isCommandAllowed_def command_map_some categoryEnabled_def
          categoryPolicy_def)
qed

text \<open>
  C1. For every operation name, \<open>isCommandAllowed\<close> is true exactly when the name is in
  the static catalog, the enable flag of its category is set, the allow-set of the
  category is "all" or contains the name, and the name is not in the global deny-set.
  Hence a name outside the catalog is always denied, and a catalog name in the deny-set
  is denied also under an "allow all" policy.
\<close>

theorem isCommandAllowed_iff:
  "isCommandAllowed config name =
     (inCatalog name
      \<and> categoryEnabled config (categoryOf name)
      \<and> (allowAll (categoryPolicy config (categoryOf name))
           \<or> name \<in> set (allowSet (categoryPolicy config (categoryOf name))))
      \<and> name \<notin> set (blockedCommands config))"
  by (rule isCommandAllowed_char)


section \<open>Properties of request parsing\<close>

lemma foldl_pushValue:
  "foldl pushValue acc xs = acc @ filter (\<lambda>v. v \<noteq> []) (map normalizeValue xs)"
  by (induction xs arbitrary: acc) (simp_all add: pushValue_def Let_def)

lemma pushItems_normalizeAll:
  "pushItems acc items =
     (case normalizeAll items of
        Inl e \<Rightarrow> Inl e
      | Inr vs \<Rightarrow> Inr (acc @ filter (\<lambda>v. v \<noteq> []) vs))"
  by (induction items arbitrary: acc) (auto split: sum.splits)

lemma parseShellWords_empty: "parseShellWords [] = []"
  by (simp add: parseShellWords_def normalizeValue_def trim_def)

text \<open>
  C2 (as the program has it). Argument collection concatenates, in priority order, the
  repeated \<open>arg\<close> query parameters, the comma-or-shell-word-split \<open>args\<close> query parameter
  and the JSON body \<open>args\<close> array; the shell-word-split raw body text is used only when
  these three give no argument. Where an item of the body array cannot be converted to a
  string, the collection throws that TypeError.
\<close>

theorem collectArgs_concatenates:
  "collectArgs searchParams body =
     (case jsonArgsSource body of
        Inl e \<Rightarrow> Inl e
      | Inr fromBody \<Rightarrow>
          Inr (if argSource searchParams @ argsSource searchParams @ fromBody \<noteq> []
               then argSource searchParams @ argsSource searchParams @ fromBody
               else bodyTextSource body))"
proof -
  define structured where "structured = argSource searchParams @ argsSource searchParams"
  have args1:
    "(if normalizeValue (orEmpty (getParam searchParams ''args'')) \<noteq> [] then
        if CHR '','' \<in> set (normalizeValue (orEmpty (getParam searchParams ''args'')))
        then foldl pushValue (foldl pushValue [] (getAll searchParams ''arg''))
               (splitOn CHR '','' (normalizeValue (orEmpty (getParam searchParams ''args''))))
        else foldl pushValue [] (getAll searchParams ''arg'')
             @ parseShellWords (normalizeValue (orEmpty (getParam searchParams ''args'')))
      else foldl pushValue [] (getAll searchParams ''arg''))
     = structured"
    unfolding structured_def
    by (cases "normalizeValue (orEmpty (getParam searchParams ''args'')) = []")
       (simp_all add: Let_def foldl_pushValue argSource_def argsSource_def parseShellWords_empty)
  have unfolded:
    "collectArgs searchParams body =
       (case (case bodyArgsArray body of
                Some items \<Rightarrow> pushItems structured items
              | None \<Rightarrow> Inr structured) of
          Inl e \<Rightarrow> Inl e
        | Inr args2 \<Rightarrow>
            Inr (if args2 = [] \<and> bodyText body \<noteq> []
                 then args2 @ parseShellWords (bodyText body)
                 else args2))"
    unfolding collectArgs_def Let_def args1 by (rule refl)
  have finish:
    "(if args2 = [] \<and> bodyText body \<noteq> [] then args2 @ parseShellWords (bodyText body)
      else args2)
     = (if args2 \<noteq> [] then args2 else bodyTextSource body)" for args2
    by (simp add: bodyTextSource_def parseShellWords_empty)
  show ?thesis
  proof (cases "bodyArgsArray body")
    case None
    then show ?thesis
      unfolding unfolded finish jsonArgsSource_def
      by (simp add: structured_def)
  next
    case (Some items)
    then show ?thesis
      unfolding unfolded finish jsonArgsSource_def pushItems_normalizeAll
      by (cases "normalizeAll items") (simp_all add: structured_def)
  qed
qed

text \<open>
  The request with query \<open>?arg=foo\<close> and JSON body \<open>{"args":["bar"]}\<close>: the first
  non-empty source alone is \<open>["foo"]\<close>, the program returns \<open>["foo", "bar"]\<close>.
\<close>

theorem collectArgs_first_source_counterexample:
  \<open>collectArgs [(''arg'', ''foo'')]
      \<lparr>bodyText = ''{"args":["bar"]}'', bodyJson = JObj [(''args'', JArr [JStr ''bar''])]\<rparr>
     = Inr [''foo'', ''bar'']
   \<and> firstNonEmpty
        [argSource [(''arg'', ''foo'')],
         argsSource [(''arg'', ''foo'')],
         [''bar''],
         bodyTextSource
           \<lparr>bodyText = ''{"args":["bar"]}'', bodyJson = JObj [(''args'', JArr [JStr ''bar''])]\<rparr>]
     = [''foo'']
   \<and> jsonArgsSource
        \<lparr>bodyText = ''{"args":["bar"]}'', bodyJson = JObj [(''args'', JArr [JStr ''bar''])]\<rparr>
     = Inr [''bar'']
   \<and> collectArgs [(''arg'', ''foo'')]
      \<lparr>bodyText = ''{"args":["bar"]}'', bodyJson = JObj [(''args'', JArr [JStr ''bar''])]\<rparr>
     \<noteq> Inr [''foo'']\<close>
  by (simp add: collectArgs_def firstNonEmpty_def argSource_def jsonArgsSource_def Let_def
      getAll_def getParam_def pushValue_def normalizeValue_def trim_def isWhiteSpace_def
      orEmpty_def bodyArgsArray_def normalizeJs_def)


text \<open>
  The body \<open>{"args":[{"toString":1}]}\<close>: the item cannot be converted to a string, and the
  collection throws.
\<close>

lemma collectArgs_unconvertible_item:
  \<open>collectArgs []
      \<lparr>bodyText = ''{"args":[{"toString":1}]}'',
       bodyJson = JObj [(''args'', JArr [JObj [(''toString'', JNum False ''1'')]])]\<rparr>
     = Inl typeError\<close>
  by (simp add: collectArgs_def Let_def getAll_def getParam_def normalizeValue_def trim_def
      orEmpty_def bodyArgsArray_def normalizeJs_def)

section \<open>Properties of strings\<close>

lemma includesText_append: "includesText (xs @ ys) ys"
proof (induction xs)
  case Nil
  show ?case by (cases ys) (simp_all add: startsWith_def)
next
  case (Cons x xs)
  then show ?case by simp
qed

lemma trim_last: "trim s \<noteq> [] \<Longrightarrow> \<not> isWhiteSpace (last (trim s))"
proof -
  assume ne: "trim s \<noteq> []"
  let ?b = "dropWhile isWhiteSpace (rev (dropWhile isWhiteSpace s))"
  from ne have b: "?b \<noteq> []" by (simp add: trim_def)
  then have "\<not> isWhiteSpace (hd ?b)" by (rule hd_dropWhile)
  moreover have "last (trim s) = hd ?b"
    using b by (simp add: trim_def last_rev)
  ultimately show ?thesis by simp
qed

lemma trim_between:
  assumes "\<not> isWhiteSpace c" "\<not> isWhiteSpace d"
  shows "trim (xs @ c # ys @ [d]) = dropWhile isWhiteSpace xs @ c # ys @ [d]"
proof -
  have "dropWhile isWhiteSpace (xs @ c # ys @ [d]) = dropWhile isWhiteSpace xs @ c # ys @ [d]"
    using assms(1) by (rule dropWhile_append3)
  then show ?thesis using assms(2) by (simp add: trim_def)
qed

lemma rev_dropWhile_rev_take: "\<exists>n. rev (dropWhile P (rev xs)) = take n xs"
proof -
  have "dropWhile P (rev xs) = drop (length (takeWhile P (rev xs))) (rev xs)"
    by (rule dropWhile_eq_drop)
  then have "rev (dropWhile P (rev xs)) = rev (drop (length (takeWhile P (rev xs))) (rev xs))"
    by (rule arg_cong)
  also have "\<dots> = take (length (rev xs) - length (takeWhile P (rev xs))) (rev (rev xs))"
    by (rule rev_drop)
  finally show ?thesis by auto
qed

lemma trim_Nil: "trim [] = []"
  by (simp add: trim_def)

lemma trim_idem: "trim (trim s) = trim s"
proof (cases "trim s = []")
  case True
  then show ?thesis by (simp add: trim_Nil)
next
  case False
  define a where "a = dropWhile isWhiteSpace s"
  define b where "b = dropWhile isWhiteSpace (rev a)"
  have t: "trim s = rev b" by (simp add: trim_def a_def b_def)
  with False have b: "b \<noteq> []" by simp
  have lastws: "\<not> isWhiteSpace (last (trim s))" using False by (rule trim_last)
  obtain n where n: "rev b = take n a"
    unfolding b_def using rev_dropWhile_rev_take by blast
  have ane: "a \<noteq> []"
  proof
    assume "a = []"
    then have "b = []" by (simp add: b_def)
    with b show False by contradiction
  qed
  from n b have "n \<noteq> 0" by (cases n) auto
  with n have "hd (rev b) = hd a" by (simp add: hd_take)
  moreover have "\<not> isWhiteSpace (hd a)" using ane unfolding a_def by (rule hd_dropWhile)
  ultimately have hdws: "\<not> isWhiteSpace (hd (trim s))" by (simp add: t)
  from False obtain c cs where cs: "trim s = c # cs" by (cases "trim s") auto
  show ?thesis
  proof (cases cs rule: rev_cases)
    case Nil
    with cs hdws have "trim [c] = [c]" by (simp add: trim_def)
    with cs Nil show ?thesis by simp
  next
    case (snoc ys d)
    with cs hdws lastws have "trim ([] @ c # ys @ [d]) = dropWhile isWhiteSpace [] @ c # ys @ [d]"
      by (intro trim_between) simp_all
    with cs snoc show ?thesis by simp
  qed
qed


lemma normalizeValue_idem: "normalizeValue (normalizeValue v) = normalizeValue v"
  by (simp add: normalizeValue_def trim_idem)

section \<open>Properties of the runtime client\<close>

lemma andThen_cases:
  assumes "andThen m f s = (r, s'')"
  obtains (rejected) e where "m s = (Inl e, s'')" "r = Inl e"
        | (resolved) x s' where "m s = (Inr x, s')" "f x s' = (r, s'')"
  using assms unfolding andThen_def by (auto split: prod.splits sum.splits)

lemma andThen_Inl: "m s = (Inl e, s') \<Longrightarrow> andThen m f s = (Inl e, s')"
  by (simp add: andThen_def)

lemma andThen_Inr: "m s = (Inr x, s') \<Longrightarrow> andThen m f s = f x s'"
  by (simp add: andThen_def)

text \<open>What a call leaves untouched: the shadow directory and the record of \<open>fs\<close> calls.\<close>

lemma runCommand_effect:
  assumes "runCommand E c a t s = (r, s')"
  shows "\<exists>outcome. spawned s' = spawned s @ [(c, a, outcome)]
           \<and> containerResolveCache s' = containerResolveCache s
           \<and> shadowFiles s' = shadowFiles s \<and> fsCalls s' = fsCalls s
           \<and> (\<forall>x. r = Inr x \<longrightarrow> hasClosed outcome \<and> (code x = 0) = exitedZero outcome
                      \<and> command x = buildCommandText c a)
           \<and> (\<forall>e. r = Inl e \<longrightarrow> \<not> hasClosed outcome \<and> errorResult e = None)"
proof -
  obtain outcome w where sp: "spawn E c a t (world s) = (outcome, w)"
    by (cases "spawn E c a t (world s)")
  show ?thesis
    apply (rule exI [of _ outcome])
    using assms sp unfolding runCommand_def
    by (auto simp: Let_def hasClosed_def exitedZero_def
        split: proc_outcome.splits option.splits)
qed

lemma runDocker_effect:
  assumes "runDocker E cfg a opts s = (r, s')"
  shows "\<exists>outcome. spawned s' = spawned s @ [(dockerBin cfg, a, outcome)]
           \<and> containerResolveCache s' = containerResolveCache s
           \<and> shadowFiles s' = shadowFiles s \<and> fsCalls s' = fsCalls s
           \<and> (\<not> allowFailure opts \<longrightarrow> (\<exists>x. r = Inr x) = exitedZero outcome)
           \<and> (\<forall>x. r = Inr x \<longrightarrow> hasClosed outcome \<and> (code x = 0) = exitedZero outcome
                      \<and> command x = buildCommandText (dockerBin cfg) a)
           \<and> (\<forall>e x. r = Inl e \<longrightarrow> errorResult e = Some x
                      \<longrightarrow> hasClosed outcome \<and> command x = buildCommandText (dockerBin cfg) a)
           \<and> (\<forall>e. r = Inl e \<longrightarrow> errorResult e = None \<longrightarrow> \<not> hasClosed outcome)"
proof -
  let ?t = "if timeoutMs opts \<noteq> 0 then timeoutMs opts else commandTimeoutMs cfg"
  obtain r0 s0 where run: "runCommand E (dockerBin cfg) a ?t s = (r0, s0)"
    by (cases "runCommand E (dockerBin cfg) a ?t s")
  from runCommand_effect [OF run] obtain outcome where
    eff: "spawned s0 = spawned s @ [(dockerBin cfg, a, outcome)]"
      "containerResolveCache s0 = containerResolveCache s"
      "shadowFiles s0 = shadowFiles s" "fsCalls s0 = fsCalls s"
    and ok: "\<forall>x. r0 = Inr x \<longrightarrow> hasClosed outcome \<and> (code x = 0) = exitedZero outcome
                      \<and> command x = buildCommandText (dockerBin cfg) a"
    and bad: "\<forall>e. r0 = Inl e \<longrightarrow> \<not> hasClosed outcome \<and> errorResult e = None"
    by blast
  have closed_zero: "exitedZero outcome \<Longrightarrow> hasClosed outcome"
    by (auto simp: exitedZero_def hasClosed_def split: proc_outcome.splits)
  show ?thesis
  proof (cases r0)
    case (Inl e)
    with run assms have "r = Inl e" "s' = s0"
      unfolding runDocker_def by (simp_all add: andThen_def)
    with Inl eff bad closed_zero show ?thesis by auto
  next
    case (Inr x)
    with run assms have rs: "s' = s0"
      "r = (if \<not> allowFailure opts \<and> code x \<noteq> 0
            then Inl (Error (''docker command failed: '' @ failureDetail x) (Some x))
            else Inr x)"
      unfolding runDocker_def by (auto simp: andThen_def split: if_splits)
    with Inr eff ok show ?thesis by (auto split: if_splits)
  qed
qed

lemma writeResolveCache_frame:
  "spawned (writeResolveCache E k v s) = spawned s"
  "shadowFiles (writeResolveCache E k v s) = shadowFiles s"
  "fsCalls (writeResolveCache E k v s) = fsCalls s"
  "world (writeResolveCache E k v s) = world s"
  by (simp_all add: writeResolveCache_def Let_def)

lemma readResolveCache_frame:
  assumes "readResolveCache E k s = (v, s')"
  shows "spawned s' = spawned s \<and> shadowFiles s' = shadowFiles s \<and> fsCalls s' = fsCalls s
         \<and> world s' = world s"
  using assms by (auto simp: readResolveCache_def Let_def split: option.splits if_splits)

lemma find_effect:
  assumes "findContainerByComposeService E cfg name s = (r, s')"
  shows "(\<exists>calls. spawned s' = spawned s @ calls
            \<and> list_all (isResolveCall cfg (normalizeValue name)) calls)
         \<and> containerResolveCache s' = containerResolveCache s
         \<and> shadowFiles s' = shadowFiles s \<and> fsCalls s' = fsCalls s"
  using assms unfolding findContainerByComposeService_def
  by (auto simp: Let_def isResolveCall_def composeFilterArgs_def
      elim!: andThen_cases dest!: runDocker_effect split: if_splits)

lemma resolve_effect:
  assumes "resolveContainerTarget E cfg name s = (r, s')"
  shows "(\<exists>calls. spawned s' = spawned s @ calls
            \<and> list_all (isResolveCall cfg (normalizeValue name)) calls)
         \<and> shadowFiles s' = shadowFiles s \<and> fsCalls s' = fsCalls s"
  using assms unfolding resolveContainerTarget_def
  by (auto simp: Let_def isResolveCall_def composeFilterArgs_def writeResolveCache_frame
        normalizeValue_idem
      elim!: andThen_cases dest!: runDocker_effect find_effect readResolveCache_frame
      split: if_splits prod.splits)


lemma execCall_not_resolve: "\<not> isResolveCall cfg name (execCall cfg resolved args outcome)"
  by (simp add: isResolveCall_def execCall_def composeFilterArgs_def)

lemma resolve_not_reload: "isResolveCall cfg name entry \<Longrightarrow> \<not> isReloadCall entry"
  by (auto simp: isResolveCall_def isReloadCall_def composeFilterArgs_def)

lemma test_not_reload: "\<not> isReloadCall (execCall cfg resolved [''nginx'', ''-t''] outcome)"
  by (simp add: isReloadCall_def execCall_def)

lemma reload_is_reload: "isReloadCall (execCall cfg resolved [''nginx'', ''-s'', ''reload''] outcome)"
  by (simp add: isReloadCall_def execCall_def)

text \<open>The two ways \<open>execInContainer\<close> ends: in the resolution, or in the command.\<close>

lemma execInContainer_shape:
  assumes "execInContainer E cfg name args opts s = (r, s')"
  shows "(\<exists>e calls. resolveContainerTarget E cfg name s = (Inl e, s') \<and> r = Inl e
            \<and> spawned s' = spawned s @ calls
            \<and> list_all (isResolveCall cfg (normalizeValue name)) calls)
         \<or> (\<exists>resolved sA calls outcome.
               resolveContainerTarget E cfg name s = (Inr resolved, sA)
             \<and> spawned sA = spawned s @ calls
             \<and> list_all (isResolveCall cfg (normalizeValue name)) calls
             \<and> runDocker E cfg (''exec'' # resolved # args) opts sA = (r, s')
             \<and> spawned s' = spawned sA @ [execCall cfg resolved args outcome]
             \<and> (\<not> allowFailure opts \<longrightarrow> (\<exists>x. r = Inr x) = exitedZero outcome))"
  using assms unfolding execInContainer_def
proof (cases rule: andThen_cases)
  case (rejected e)
  with resolve_effect [OF rejected(1)] show ?thesis by auto
next
  case (resolved x sA)
  from resolve_effect [OF resolved(1)] obtain calls where
    "spawned sA = spawned s @ calls" "list_all (isResolveCall cfg (normalizeValue name)) calls"
    by blast
  moreover from runDocker_effect [OF resolved(2)] obtain outcome where
    "spawned s' = spawned sA @ [execCall cfg x args outcome]"
    "\<not> allowFailure opts \<longrightarrow> (\<exists>y. r = Inr y) = exitedZero outcome"
    by (auto simp: execCall_def)
  ultimately show ?thesis using resolved by blast
qed

lemma execInContainer_frame:
  assumes "execInContainer E cfg name args opts s = (r, s')"
  shows "shadowFiles s' = shadowFiles s \<and> fsCalls s' = fsCalls s"
  using assms unfolding execInContainer_def
  by (auto elim!: andThen_cases dest!: resolve_effect runDocker_effect)

text \<open>
  C6. The reload operation never sends the reload signal against a configuration known
  to be invalid. The \<open>spawn\<close> calls one invocation of \<open>nginxReload\<close> adds to the record
  are of one of three shapes. Either the validation call \<open>nginxTest\<close> rejects, the
  operation ends in the state and with the error of that call, and every call made is a
  call that resolves the nginx container or the validation \<open>nginx -t\<close> not exiting with
  code 0. Or the calls are: calls that resolve the nginx container, the validation
  \<open>nginx -t\<close> in the container resolved, exited with code 0, then again calls that
  resolve the nginx container, and last, when this resolution succeeds, the reload
  \<open>nginx -s reload\<close> in the container it gives. Hence, when a reload was spawned, a
  validation that exited with code 0 stands before it in the record, with no reload
  before that validation.
\<close>

theorem nginxReload_validates_first:
  assumes "nginxReload E cfg s = (r, s')"
  shows "\<exists>calls.
           spawned s' = spawned s @ calls
         \<and> ((\<exists>e. r = Inl e \<and> nginxTest E cfg s = (Inl e, s')
                \<and> list_all
                     (\<lambda>c. isResolveCall cfg (normalizeValue (nginxContainer cfg)) c
                          \<or> (\<exists>resolved outcome.
                                c = execCall cfg resolved [''nginx'', ''-t''] outcome
                              \<and> \<not> exitedZero outcome))
                     calls)
             \<or> (\<exists>resolved1 outcome1 calls1 rest sA sB t.
                   resolveContainerTarget E cfg (nginxContainer cfg) s = (Inr resolved1, sA)
                 \<and> spawned sA = spawned s @ calls1
                 \<and> list_all (isResolveCall cfg (normalizeValue (nginxContainer cfg))) calls1
                 \<and> nginxTest E cfg s = (Inr t, sB)
                 \<and> spawned sB = spawned sA @ [execCall cfg resolved1 [''nginx'', ''-t''] outcome1]
                 \<and> exitedZero outcome1
                 \<and> calls = calls1 @ [execCall cfg resolved1 [''nginx'', ''-t''] outcome1] @ rest
                 \<and> ((\<exists>e. resolveContainerTarget E cfg (nginxContainer cfg) sB = (Inl e, s')
                        \<and> r = Inl e
                        \<and> list_all (isResolveCall cfg (normalizeValue (nginxContainer cfg))) rest)
                     \<or> (\<exists>resolved2 outcome2 calls2 sC.
                           resolveContainerTarget E cfg (nginxContainer cfg) sB
                             = (Inr resolved2, sC)
                         \<and> spawned sC = spawned sB @ calls2
                         \<and> list_all (isResolveCall cfg (normalizeValue (nginxContainer cfg)))
                              calls2
                         \<and> rest = calls2
                                  @ [execCall cfg resolved2 [''nginx'', ''-s'', ''reload'']
                                       outcome2]))))
         \<and> (list_ex isReloadCall calls
              \<longrightarrow> (\<exists>before resolved outcome after.
                     calls = before @ execCall cfg resolved [''nginx'', ''-t''] outcome # after
                   \<and> exitedZero outcome \<and> \<not> list_ex isReloadCall before))"
proof -
  let ?N = "normalizeValue (nginxContainer cfg)"
  let ?first = "\<lambda>calls. \<exists>e. r = Inl e \<and> nginxTest E cfg s = (Inl e, s')
                \<and> list_all
                     (\<lambda>c. isResolveCall cfg ?N c
                          \<or> (\<exists>resolved outcome.
                                c = execCall cfg resolved [''nginx'', ''-t''] outcome
                              \<and> \<not> exitedZero outcome))
                     calls"
  let ?second = "\<lambda>calls. \<exists>resolved1 outcome1 calls1 rest sA sB t.
                   resolveContainerTarget E cfg (nginxContainer cfg) s = (Inr resolved1, sA)
                 \<and> spawned sA = spawned s @ calls1
                 \<and> list_all (isResolveCall cfg ?N) calls1
                 \<and> nginxTest E cfg s = (Inr t, sB)
                 \<and> spawned sB = spawned sA @ [execCall cfg resolved1 [''nginx'', ''-t''] outcome1]
                 \<and> exitedZero outcome1
                 \<and> calls = calls1 @ [execCall cfg resolved1 [''nginx'', ''-t''] outcome1] @ rest
                 \<and> ((\<exists>e. resolveContainerTarget E cfg (nginxContainer cfg) sB = (Inl e, s')
                        \<and> r = Inl e
                        \<and> list_all (isResolveCall cfg ?N) rest)
                     \<or> (\<exists>resolved2 outcome2 calls2 sC.
                           resolveContainerTarget E cfg (nginxContainer cfg) sB
                             = (Inr resolved2, sC)
                         \<and> spawned sC = spawned sB @ calls2
                         \<and> list_all (isResolveCall cfg ?N) calls2
                         \<and> rest = calls2
                                  @ [execCall cfg resolved2 [''nginx'', ''-s'', ''reload'']
                                       outcome2]))"
  have no_reload: "list_all (isResolveCall cfg ?N) cs \<Longrightarrow> \<not> list_ex isReloadCall cs" for cs
    by (auto simp: list_all_iff list_ex_iff dest: resolve_not_reload)
  have shape: "\<exists>calls. spawned s' = spawned s @ calls \<and> (?first calls \<or> ?second calls)"
    using assms unfolding nginxReload_def
  proof (cases rule: andThen_cases)
    case (rejected e)
    from execInContainer_shape [OF rejected(1) [unfolded nginxTest_def]]
    show ?thesis
    proof (elim disjE exE conjE)
      fix e' calls
      assume "spawned s' = spawned s @ calls" "list_all (isResolveCall cfg ?N) calls"
      then have "spawned s' = spawned s @ calls \<and> ?first calls"
        using rejected by (auto simp: list_all_iff)
      then show ?thesis by blast
    next
      fix resolved sA calls outcome
      assume a: "spawned sA = spawned s @ calls" "list_all (isResolveCall cfg ?N) calls"
        "spawned s' = spawned sA @ [execCall cfg resolved [''nginx'', ''-t''] outcome]"
        "\<not> allowFailure defaultOptions \<longrightarrow> (\<exists>x. Inl e = Inr x) = exitedZero outcome"
      from a(4) have "\<not> exitedZero outcome"
        by (simp add: defaultOptions_def)
      with a have "spawned s' = spawned s @ (calls @ [execCall cfg resolved [''nginx'', ''-t''] outcome])
         \<and> ?first (calls @ [execCall cfg resolved [''nginx'', ''-t''] outcome])"
        using rejected by (auto simp: list_all_iff)
      then show ?thesis by blast
    qed
  next
    case (resolved t sB)
    from execInContainer_shape [OF resolved(1) [unfolded nginxTest_def]]
    obtain resolved1 sA calls1 outcome1 where
      r1: "resolveContainerTarget E cfg (nginxContainer cfg) s = (Inr resolved1, sA)"
      and c1: "spawned sA = spawned s @ calls1" "list_all (isResolveCall cfg ?N) calls1"
      and t1: "spawned sB = spawned sA @ [execCall cfg resolved1 [''nginx'', ''-t''] outcome1]"
      and zero: "exitedZero outcome1"
      by (auto simp: defaultOptions_def)
    let ?test = "execCall cfg resolved1 [''nginx'', ''-t''] outcome1"
    from execInContainer_shape [OF resolved(2)]
    show ?thesis
    proof (elim disjE exE conjE)
      fix e rest
      assume a: "resolveContainerTarget E cfg (nginxContainer cfg) sB = (Inl e, s')" "r = Inl e"
        "spawned s' = spawned sB @ rest" "list_all (isResolveCall cfg ?N) rest"
      have "spawned s' = spawned s @ (calls1 @ [?test] @ rest)"
        using a(3) t1 c1(1) by simp
      moreover have "?second (calls1 @ [?test] @ rest)"
        using r1 c1 t1 zero resolved(1) a by blast
      ultimately show ?thesis by blast
    next
      fix resolved2 sC calls2 outcome2
      assume a: "resolveContainerTarget E cfg (nginxContainer cfg) sB = (Inr resolved2, sC)"
        "spawned sC = spawned sB @ calls2" "list_all (isResolveCall cfg ?N) calls2"
        "spawned s' = spawned sC @ [execCall cfg resolved2 [''nginx'', ''-s'', ''reload''] outcome2]"
      let ?rest = "calls2 @ [execCall cfg resolved2 [''nginx'', ''-s'', ''reload''] outcome2]"
      have "spawned s' = spawned s @ (calls1 @ [?test] @ ?rest)"
        using a(2,4) t1 c1(1) by simp
      moreover have "?second (calls1 @ [?test] @ ?rest)"
        using r1 c1 t1 zero resolved(1) a(1,2,3) by blast
      ultimately show ?thesis by blast
    qed
  qed
  then obtain calls where calls: "spawned s' = spawned s @ calls"
    and cases: "?first calls \<or> ?second calls" by blast
  have "list_ex isReloadCall calls
        \<longrightarrow> (\<exists>before resolved outcome after.
               calls = before @ execCall cfg resolved [''nginx'', ''-t''] outcome # after
             \<and> exitedZero outcome \<and> \<not> list_ex isReloadCall before)"
  proof
    assume reload: "list_ex isReloadCall calls"
    from cases show "\<exists>before resolved outcome after.
               calls = before @ execCall cfg resolved [''nginx'', ''-t''] outcome # after
             \<and> exitedZero outcome \<and> \<not> list_ex isReloadCall before"
    proof
      assume "?first calls"
      then have "\<not> list_ex isReloadCall calls"
        by (auto simp: list_all_iff list_ex_iff test_not_reload dest: resolve_not_reload)
      with reload show ?thesis by contradiction
    next
      assume "?second calls"
      then obtain resolved1 outcome1 calls1 rest where
        "list_all (isResolveCall cfg ?N) calls1" "exitedZero outcome1"
        "calls = calls1 @ [execCall cfg resolved1 [''nginx'', ''-t''] outcome1] @ rest"
        by blast
      with no_reload [of calls1] show ?thesis by auto
    qed
  qed
  with calls cases show ?thesis by blast
qed


lemmas string_defs = normalizeValue_def trim_def isWhiteSpace_def isAlnum_def isDigit_def
  isNameChar_def buildCommandText_def

lemmas client_defs = nginxReload_def nginxTest_def execInContainer_def resolveContainerTarget_def
  runDocker_def runCommand_def andThen_def readResolveCache_def writeResolveCache_def
  isContainerNameValid_def defaultOptions_def containerResolveTtlMs_def
  findContainerByComposeService_def failureDetail_def

lemmas example_defs = scriptedEnv_def allSucceed_def validationFails_def defaultConfig_def
  initialState_def

lemma reload_example:
  "spawned (snd (nginxReload (scriptedEnv allSucceed) defaultConfig (initialState 0)))
   = [(''docker'', [''container'', ''inspect'', ''nginx''], Closed (Some 0) None [] []),
      (''docker'', [''exec'', ''nginx'', ''nginx'', ''-t''], Closed (Some 0) None [] []),
      (''docker'', [''exec'', ''nginx'', ''nginx'', ''-s'', ''reload''],
       Closed (Some 0) None [] [])]"
  by (simp add: client_defs string_defs example_defs Let_def)

lemma rejected_example:
  "nginxReload (scriptedEnv validationFails) defaultConfig (initialState 0)
   = nginxTest (scriptedEnv validationFails) defaultConfig (initialState 0)
   \<and> spawned (snd (nginxReload (scriptedEnv validationFails) defaultConfig (initialState 0)))
   = [(''docker'', [''container'', ''inspect'', ''nginx''], Closed (Some 0) None [] []),
      (''docker'', [''exec'', ''nginx'', ''nginx'', ''-t''],
       Closed (Some 1) None [] ''nginx: configuration file test failed'')]"
  by (simp add: client_defs string_defs example_defs Let_def)

theorem nginxReload_validates_first_witness:
  "spawned (snd (nginxReload (scriptedEnv allSucceed) defaultConfig (initialState 0)))
   = [(''docker'', [''container'', ''inspect'', ''nginx''], Closed (Some 0) None [] []),
      (''docker'', [''exec'', ''nginx'', ''nginx'', ''-t''], Closed (Some 0) None [] []),
      (''docker'', [''exec'', ''nginx'', ''nginx'', ''-s'', ''reload''],
       Closed (Some 0) None [] [])]
   \<and> (\<exists>before resolved outcome after.
         spawned (snd (nginxReload (scriptedEnv allSucceed) defaultConfig (initialState 0)))
           = before @ execCall defaultConfig resolved [''nginx'', ''-t''] outcome # after
       \<and> exitedZero outcome \<and> \<not> list_ex isReloadCall before)
   \<and> (\<exists>e. fst (nginxReload (scriptedEnv validationFails) defaultConfig (initialState 0)) = Inl e)
   \<and> \<not> list_ex isReloadCall
         (spawned (snd (nginxReload (scriptedEnv validationFails) defaultConfig
                          (initialState 0))))"
proof -
  let ?ok = "scriptedEnv allSucceed" and ?bad = "scriptedEnv validationFails"
  let ?s = "initialState (0::nat)"
  let ?out = "nginxReload ?ok defaultConfig ?s"
  let ?rej = "nginxReload ?bad defaultConfig ?s"
  have start: "spawned ?s = []" by (simp add: initialState_def)
  from nginxReload_validates_first [of ?ok defaultConfig ?s "fst ?out" "snd ?out"]
  obtain calls where calls: "spawned (snd ?out) = spawned ?s @ calls"
    and passed: "list_ex isReloadCall calls
       \<longrightarrow> (\<exists>before resolved outcome after.
             calls = before @ execCall defaultConfig resolved [''nginx'', ''-t''] outcome # after
           \<and> exitedZero outcome \<and> \<not> list_ex isReloadCall before)"
    by (simp only: prod.collapse) blast
  from calls start have eq: "calls = spawned (snd ?out)" by simp
  have "list_ex isReloadCall (spawned (snd ?out))"
    by (simp only: reload_example) (simp add: isReloadCall_def)
  with passed eq have first: "\<exists>before resolved outcome after.
         spawned (snd ?out)
           = before @ execCall defaultConfig resolved [''nginx'', ''-t''] outcome # after
       \<and> exitedZero outcome \<and> \<not> list_ex isReloadCall before"
    by simp
  from nginxReload_validates_first [of ?bad defaultConfig ?s "fst ?rej" "snd ?rej"]
  obtain rejected where "spawned (snd ?rej) = spawned ?s @ rejected"
    by (simp only: prod.collapse) blast
  have second: "\<exists>e. fst ?rej = Inl e"
    by (simp add: client_defs string_defs example_defs Let_def)
  have third: "\<not> list_ex isReloadCall (spawned (snd ?rej))"
    by (simp only: rejected_example [THEN conjunct2]) (simp add: isReloadCall_def)
  from reload_example first second third show ?thesis by blast
qed

end
